theory Spec2Isabelle
  imports Complex_Main
begin

section \<open>The lesson runner of \<^verbatim>\<open>src/App.jsx\<close>\<close>

text \<open>
  The component keeps three kinds of state: the persisted progress record, the per-day
  quiz and writing state, and the bookkeeping of the narration queue. Every handler of
  the source is a function from the state before the call to the state after it.

  Conventions of the model:
  \<^item> a JavaScript number that holds a day or a count is an \<open>int\<close> or a \<open>nat\<close>; a ratio
    (a quiz score, a threshold of the pass rules) is a \<open>real\<close>, so the quotient of a
    score is the exact one and not its rounding to a double;
  \<^item> a JavaScript string is a \<open>string\<close> whose characters are the code units below 256
    (Basic Latin and Latin-1 Supplement, which hold the German alphabet);
  \<^item> a property the source guards with \<^verbatim>\<open>?.\<close>, \<^verbatim>\<open>||\<close>, \<^verbatim>\<open>??\<close> or
    \<^verbatim>\<open>Array.isArray\<close> is an \<open>option\<close>: \<open>None\<close> is the missing (or wrongly shaped)
    property;
  \<^item> a \<^verbatim>\<open>throw\<close> is the left injection of a sum.
\<close>

datatype js_error = SyntaxError | TypeError | StorageError

subsection \<open>Progress and day navigation\<close>

text \<open>
  The progress object \<^verbatim>\<open>{ currentDay, maxUnlockedDay, mode }\<close>. The handlers work on
  days that are integers and a mode that is a string; \<^verbatim>\<open>loadProgress\<close> hands on
  whatever values the parsed text holds, so the record leaves both types open.
\<close>

record ('n, 's) progress =
  currentDay :: 'n
  maxUnlockedDay :: 'n
  mode :: 's

type_synonym day_progress = "(int, string) progress"

text \<open>\<^verbatim>\<open>const safeDay = Math.min(progress.currentDay, progress.maxUnlockedDay)\<close>\<close>

definition safeDay :: "day_progress \<Rightarrow> int" where
  "safeDay p = min (currentDay p) (maxUnlockedDay p)"

text \<open>\<^verbatim>\<open>setProgress((p) => ({ ...p, mode: newMode }))\<close>\<close>

definition setMode :: "string \<Rightarrow> day_progress \<Rightarrow> day_progress" where
  "setMode newMode p = p\<lparr>mode := newMode\<rparr>"

text \<open>
  \<^verbatim>\<open>goToDay(day)\<close>: two early returns, then one functional update of the progress. The
  handler reads the bound from the progress of the render it belongs to, which is the
  progress the update is applied to.
\<close>

definition goToDay :: "int \<Rightarrow> day_progress \<Rightarrow> day_progress" where
  "goToDay day p =
     (if day < 1 then p
      else if day > maxUnlockedDay p then p
      else p\<lparr>currentDay := day, mode := ''learn''\<rparr>)"

subsection \<open>Strings\<close>

text \<open>
  \<^verbatim>\<open>String.prototype.trim\<close> removes the white space and the line terminators at both
  ends; below 256 these are the code units 9 to 13, 32 and 160.
\<close>

definition isWhiteSpace :: "char \<Rightarrow> bool" where
  "isWhiteSpace c = ((of_char c :: nat) \<in> {9, 10, 11, 12, 13, 32, 160})"

definition trim :: "string \<Rightarrow> string" where
  "trim s = rev (dropWhile isWhiteSpace (rev (dropWhile isWhiteSpace s)))"

text \<open>
  \<^verbatim>\<open>String.prototype.toLowerCase\<close> on the code units below 256: the capital letters are
  65 to 90 and 192 to 222 without the multiplication sign 215, and the small letter of
  each is 32 above it, which is the capital with the bit of value 32 set.
\<close>

definition isUpperCase :: "char \<Rightarrow> bool" where
  "isUpperCase c =
     (let n = (of_char c :: nat)
      in (65 \<le> n \<and> n \<le> 90) \<or> (192 \<le> n \<and> n \<le> 222 \<and> n \<noteq> 215))"

definition lowerCaseChar :: "char \<Rightarrow> char" where
  "lowerCaseChar c =
     (if isUpperCase c
      then (case c of Char b0 b1 b2 b3 b4 b5 b6 b7 \<Rightarrow> Char b0 b1 b2 b3 b4 True b6 b7)
      else c)"

definition toLowerCase :: "string \<Rightarrow> string" where
  "toLowerCase s = map lowerCaseChar s"

text \<open>\<^verbatim>\<open>t.includes(w)\<close>: \<open>w\<close> occurs in \<open>t\<close> as a contiguous run, at any position.\<close>

fun includes_str :: "string \<Rightarrow> string \<Rightarrow> bool" where
  "includes_str [] w = (w = [])"
| "includes_str (c # cs) w = (take (length w) (c # cs) = w \<or> includes_str cs w)"

text \<open>
  \<^verbatim>\<open>text.split(/[.!?]+/g)\<close>: the pieces between the maximal runs of terminal
  punctuation, the empty pieces at both ends included. \<open>cur\<close> is the piece being read.
\<close>

definition isTerminal :: "char \<Rightarrow> bool" where
  "isTerminal c = (c = CHR ''.'' \<or> c = CHR ''!'' \<or> c = CHR ''?'')"

function splitTerminal :: "string \<Rightarrow> string \<Rightarrow> string list" where
  "splitTerminal cur [] = [cur]"
| "splitTerminal cur (c # cs) =
     (if isTerminal c then cur # splitTerminal [] (dropWhile isTerminal cs)
      else splitTerminal (cur @ [c]) cs)"
  by pat_completeness auto
termination
  by (relation "measure (\<lambda>(cur, s). length s)")
     (auto simp: le_imp_less_Suc length_dropWhile_le)

subsection \<open>The helpers of the writing check\<close>

text \<open>
  \<^verbatim>\<open>countSentences\<close>: split, trim every piece, drop the empty ones
  (\<^verbatim>\<open>filter(Boolean)\<close>), count.
\<close>

definition countSentences :: "string \<Rightarrow> nat" where
  "countSentences text =
     length (filter (\<lambda>s. s \<noteq> []) (map trim (splitTerminal [] text)))"

definition normalize :: "string \<Rightarrow> string" where
  "normalize text = toLowerCase text"

text \<open>\<^verbatim>\<open>words.some((w) => t.includes(String(w).toLowerCase()))\<close>\<close>

definition includesAny :: "string \<Rightarrow> string list \<Rightarrow> bool" where
  "includesAny haystack words =
     (let t = normalize haystack in list_ex (\<lambda>w. includes_str t (toLowerCase w)) words)"

text \<open>\<^verbatim>\<open>countVocabUsed\<close>: the loop over the vocabulary with its counter.\<close>

definition countVocabUsed :: "string \<Rightarrow> string list \<Rightarrow> nat" where
  "countVocabUsed text vocabList =
     (let t = normalize text
      in fold (\<lambda>w count. if includes_str t (toLowerCase w) then count + 1 else count)
           vocabList 0)"

text \<open>
  \<^verbatim>\<open>testRegexAll\<close>. The regular-expression engine is outside the program: \<open>re p t\<close>
  is the outcome of \<^verbatim>\<open>new RegExp(p, "i").test(t)\<close>, an error when \<open>p\<close> is not a
  pattern. The \<^verbatim>\<open>map\<close> stops at the first pattern that throws.
\<close>

type_synonym regexp_engine = "string \<Rightarrow> string \<Rightarrow> js_error + bool"

fun testRegexAll :: "regexp_engine \<Rightarrow> string \<Rightarrow> string list \<Rightarrow> js_error + bool list" where
  "testRegexAll re text [] = Inr []"
| "testRegexAll re text (p # ps) =
     (case re p text of
        Inl e \<Rightarrow> Inl e
      | Inr b \<Rightarrow> (case testRegexAll re text ps of
                    Inl e \<Rightarrow> Inl e
                  | Inr bs \<Rightarrow> Inr (b # bs)))"

text \<open>\<^verbatim>\<open>xs || []\<close>, and \<^verbatim>\<open>Array.isArray(xs) ? xs : []\<close>: a missing list is the empty one.\<close>

definition orEmpty :: "'a list option \<Rightarrow> 'a list" where
  "orEmpty xs = (case xs of Some ys \<Rightarrow> ys | None \<Rightarrow> [])"

subsection \<open>The day plan\<close>

text \<open>
  One entry of \<^verbatim>\<open>dayPlans.json\<close>, with the properties the logic reads. The questions
  of the grammar and listening quizzes have the properties \<^verbatim>\<open>q\<close>, \<^verbatim>\<open>choices\<close> and
  \<^verbatim>\<open>a\<close>; they are \<open>q_q\<close>, \<open>q_choices\<close> and \<open>q_a\<close> here. A segment has \<^verbatim>\<open>id\<close>,
  \<^verbatim>\<open>title\<close>, \<^verbatim>\<open>text\<close>, \<^verbatim>\<open>repeat\<close> and \<^verbatim>\<open>quiz\<close>; the listening block has
  \<^verbatim>\<open>segments\<close> or the older \<^verbatim>\<open>text\<close> and \<^verbatim>\<open>quiz\<close>.
\<close>

record vocab_item =
  de :: string
  en :: string

record vocab_question =
  word :: string
  choices :: "string list"
  answer :: string

record question =
  q_q :: string
  q_choices :: "string list"
  q_a :: string

record grammar =
  g_title :: string
  g_rules :: "string list"
  g_examples :: "string list"
  g_quiz :: "question list option"

record segment =
  seg_id :: int
  seg_title :: string
  seg_text :: string
  seg_repeat :: "int option"
  seg_quiz :: "question list option"

record listening =
  segments :: "segment list option"
  l_text :: "string option"
  l_quiz :: "question list option"

record outputRules =
  mustIncludeAny :: "string list option"
  mustIncludeAllPatterns :: "string list option"
  minSentences :: int
  mustUseVocabAtLeast :: int

record passRules =
  minOutputChars :: int
  vocabMinCorrect :: real
  grammarMinCorrect :: real
  listeningMinCorrect :: real

record dayPlan =
  day :: int
  topic :: string
  vocab_list :: "vocab_item list option"
  vocab_quiz :: "vocab_question list option"
  grammar :: "grammar option"
  listening :: "listening option"
  outputRules :: outputRules
  passRules :: passRules

subsection \<open>Listening segments and the flattened listening quiz\<close>

text \<open>
  \<^verbatim>\<open>getListeningSegments(dayPlan)\<close>. The argument is \<open>None\<close> for an undefined plan
  (\<^verbatim>\<open>dayPlan?.listening\<close>). A non-empty \<^verbatim>\<open>segments\<close> array is returned as it is; else a
  truthy \<^verbatim>\<open>text\<close>, which for a string is a non-empty one, gives the single segment
  of the older shape; else the result is empty.
\<close>

definition getListeningSegments :: "dayPlan option \<Rightarrow> segment list" where
  "getListeningSegments dayPlan =
     (case dayPlan of
        None \<Rightarrow> []
      | Some dp \<Rightarrow>
          (case listening dp of
             None \<Rightarrow> []
           | Some L \<Rightarrow>
               (case segments L of
                  Some (seg # segs) \<Rightarrow> seg # segs
                | _ \<Rightarrow>
                    (case l_text L of
                       Some (c # cs) \<Rightarrow>
                         [\<lparr>seg_id = 1, seg_title = ''Listening'', seg_text = c # cs,
                           seg_repeat = Some 1,
                           seg_quiz = Some (orEmpty (l_quiz L))\<rparr>]
                     | _ \<Rightarrow> []))))"

text \<open>
  The decimal digits of an index, as a template literal writes a non-negative integer.
\<close>

definition digitChar :: "nat \<Rightarrow> char" where
  "digitChar d = ''0123456789'' ! d"

function toString_nat :: "nat \<Rightarrow> string" where
  "toString_nat n =
     (if n < 10 then [digitChar n] else toString_nat (n div 10) @ [digitChar (n mod 10)])"
  by pat_completeness auto
termination
  by (relation "measure (\<lambda>n. n)") auto

text \<open>The key \<^verbatim>\<open>`${segIndex}-${qIndex}`\<close>.\<close>

definition listeningKey :: "nat \<Rightarrow> nat \<Rightarrow> string" where
  "listeningKey segIndex qIndex = toString_nat segIndex @ ''-'' @ toString_nat qIndex"

text \<open>
  An entry of the flattened quiz, \<^verbatim>\<open>{ segIndex, qIndex, q, key }\<close>; its question is
  \<open>item_q\<close>, its key \<open>item_key\<close>.
\<close>

record flat_item =
  segIndex :: nat
  qIndex :: nat
  item_q :: question
  item_key :: string

definition flatItem :: "nat \<Rightarrow> nat \<Rightarrow> question \<Rightarrow> flat_item" where
  "flatItem si qi qn =
     \<lparr>segIndex = si, qIndex = qi, item_q = qn, item_key = listeningKey si qi\<rparr>"

text \<open>
  \<^verbatim>\<open>flattenListeningQuiz\<close>: two nested \<^verbatim>\<open>forEach\<close> loops, each with the index of its
  element, that push onto \<^verbatim>\<open>out\<close>.
\<close>

definition flattenListeningQuiz :: "dayPlan option \<Rightarrow> flat_item list" where
  "flattenListeningQuiz dayPlan =
     (let segs = getListeningSegments dayPlan
      in fold (\<lambda>(si, seg) out.
                 fold (\<lambda>(qi, qn) out'. out' @ [flatItem si qi qn])
                      (enumerate 0 (orEmpty (seg_quiz seg)))
                      out)
              (enumerate 0 segs) [])"

subsection \<open>The state of the component\<close>

text \<open>
  The report object of \<^verbatim>\<open>evaluateOutput\<close>; the four properties it copies from the
  rules carry the prefix \<open>r_\<close>.
\<close>

record output_report =
  charCount :: nat
  minChars :: int
  charsOk :: bool
  sentences :: nat
  r_minSentences :: int
  sentencesOk :: bool
  r_mustIncludeAny :: "string list"
  keywordOk :: bool
  r_mustIncludeAllPatterns :: "string list"
  patternChecks :: "bool list"
  patternsOk :: bool
  vocabUsedCount :: nat
  r_mustUseVocabAtLeast :: int
  vocabOk :: bool

text \<open>
  The verdict object \<^verbatim>\<open>{ vocabScore, grammarScore, listeningScore, outputOk, passed }\<close>
  that \<^verbatim>\<open>checkPassAndUnlock\<close> stores; its properties carry the prefix \<open>res_\<close>.
\<close>

record verdict =
  res_vocabScore :: real
  res_grammarScore :: real
  res_listeningScore :: real
  res_outputOk :: bool
  res_passed :: bool

text \<open>
  The \<^verbatim>\<open>useState\<close> cells of the lesson: the progress, a counter and an answer object
  for each quiz (keyed by the question's index, or by the key of the flattened listening
  quiz), the text of the writing task, the last report and the last verdict.
\<close>

record app_state =
  progress :: day_progress
  vocabCorrect :: nat
  vocabChosen :: "nat \<rightharpoonup> string"
  grammarCorrect :: nat
  grammarChosen :: "nat \<rightharpoonup> string"
  listeningCorrect :: nat
  listeningChosen :: "string \<rightharpoonup> string"
  outputText :: string
  outputReport :: "output_report option"
  result :: "verdict option"

subsection \<open>Recording a quiz answer\<close>

text \<open>
  The \<^verbatim>\<open>onClick\<close> of a choice button, for each of the three quizzes: the choice is
  stored under the question's key, and the counter grows when the choice is the answer.
\<close>

definition vocabOnClick :: "vocab_question \<Rightarrow> nat \<Rightarrow> string \<Rightarrow> app_state \<Rightarrow> app_state" where
  "vocabOnClick qn i c s =
     (let s1 = s\<lparr>vocabChosen := (vocabChosen s)(i \<mapsto> c)\<rparr>
      in if c = answer qn then s1\<lparr>vocabCorrect := vocabCorrect s1 + 1\<rparr> else s1)"

definition grammarOnClick :: "question \<Rightarrow> nat \<Rightarrow> string \<Rightarrow> app_state \<Rightarrow> app_state" where
  "grammarOnClick qn i c s =
     (let s1 = s\<lparr>grammarChosen := (grammarChosen s)(i \<mapsto> c)\<rparr>
      in if c = q_a qn then s1\<lparr>grammarCorrect := grammarCorrect s1 + 1\<rparr> else s1)"

definition listeningOnClick :: "flat_item \<Rightarrow> string \<Rightarrow> app_state \<Rightarrow> app_state" where
  "listeningOnClick item c s =
     (let s1 = s\<lparr>listeningChosen := (listeningChosen s)(item_key item \<mapsto> c)\<rparr>
      in if c = q_a (item_q item) then s1\<lparr>listeningCorrect := listeningCorrect s1 + 1\<rparr>
         else s1)"

text \<open>
  \<^verbatim>\<open>const locked = chosen !== undefined\<close>, and every choice button of the question has
  \<^verbatim>\<open>disabled={locked}\<close>: a click on a disabled button runs no handler.
\<close>

definition vocabLocked :: "app_state \<Rightarrow> nat \<Rightarrow> bool" where
  "vocabLocked s i = (vocabChosen s i \<noteq> None)"

definition grammarLocked :: "app_state \<Rightarrow> nat \<Rightarrow> bool" where
  "grammarLocked s i = (grammarChosen s i \<noteq> None)"

definition listeningLocked :: "app_state \<Rightarrow> flat_item \<Rightarrow> bool" where
  "listeningLocked s item = (listeningChosen s (item_key item) \<noteq> None)"

definition vocabButton :: "vocab_question \<Rightarrow> nat \<Rightarrow> string \<Rightarrow> app_state \<Rightarrow> app_state" where
  "vocabButton qn i c s = (if vocabLocked s i then s else vocabOnClick qn i c s)"

definition grammarButton :: "question \<Rightarrow> nat \<Rightarrow> string \<Rightarrow> app_state \<Rightarrow> app_state" where
  "grammarButton qn i c s = (if grammarLocked s i then s else grammarOnClick qn i c s)"

definition listeningButton :: "flat_item \<Rightarrow> string \<Rightarrow> app_state \<Rightarrow> app_state" where
  "listeningButton item c s =
     (if listeningLocked s item then s else listeningOnClick item c s)"

subsection \<open>The writing check and the day gate\<close>

text \<open>
  \<^verbatim>\<open>evaluateOutput()\<close>: builds the report from the text of the writing task, stores it
  and returns the conjunction of its five checks. A pattern that is no regular expression
  throws before anything has been stored.
\<close>

definition evaluateOutput :: "regexp_engine \<Rightarrow> dayPlan \<Rightarrow> app_state \<Rightarrow> js_error + (bool \<times> app_state)" where
  "evaluateOutput re dp s =
     (let rules = outputRules dp;
          t = outputText s;
          nChars = length (trim t);
          nSentences = countSentences t;
          anyList = orEmpty (mustIncludeAny rules);
          patList = orEmpty (mustIncludeAllPatterns rules);
          hasAnyKeywords = includesAny t anyList
      in case testRegexAll re t patList of
           Inl e \<Rightarrow> Inl e
         | Inr checks \<Rightarrow>
             (let allOk = list_all (\<lambda>b. b) checks;
                  todaysVocabList =
                    map de (orEmpty (vocab_list dp));
                  nVocab = countVocabUsed t todaysVocabList;
                  report = \<lparr>
                    charCount = nChars,
                    minChars = minOutputChars (passRules dp),
                    charsOk = (int nChars \<ge> minOutputChars (passRules dp)),
                    sentences = nSentences,
                    r_minSentences = minSentences rules,
                    sentencesOk = (int nSentences \<ge> minSentences rules),
                    r_mustIncludeAny = anyList,
                    keywordOk = (if length anyList = 0 then True else hasAnyKeywords),
                    r_mustIncludeAllPatterns = patList,
                    patternChecks = checks,
                    patternsOk = allOk,
                    vocabUsedCount = nVocab,
                    r_mustUseVocabAtLeast = mustUseVocabAtLeast rules,
                    vocabOk = (int nVocab \<ge> mustUseVocabAtLeast rules)\<rparr>
              in Inr (charsOk report \<and> sentencesOk report \<and> keywordOk report \<and>
                      patternsOk report \<and> vocabOk report,
                      s\<lparr>outputReport := Some report\<rparr>)))"

text \<open>
  The three scores of \<^verbatim>\<open>checkPassAndUnlock\<close>. A missing list has no \<^verbatim>\<open>length\<close>, an
  empty one has length 0, and both are falsy: the score is then 1.
\<close>

definition vocabScore :: "dayPlan \<Rightarrow> app_state \<Rightarrow> real" where
  "vocabScore dp s =
     (case vocab_quiz dp of
        None \<Rightarrow> 1
      | Some qs \<Rightarrow> if length qs \<noteq> 0 then real (vocabCorrect s) / real (length qs) else 1)"

definition grammarScore :: "dayPlan \<Rightarrow> app_state \<Rightarrow> real" where
  "grammarScore dp s =
     (case grammar dp of
        None \<Rightarrow> 1
      | Some g \<Rightarrow>
          (case g_quiz g of
             None \<Rightarrow> 1
           | Some qs \<Rightarrow>
               if length qs \<noteq> 0 then real (grammarCorrect s) / real (length qs) else 1))"

definition listeningScore :: "dayPlan \<Rightarrow> app_state \<Rightarrow> real" where
  "listeningScore dp s =
     (let listeningQuizFlat = flattenListeningQuiz (Some dp)
      in if length listeningQuizFlat \<noteq> 0
         then real (listeningCorrect s) / real (length listeningQuizFlat) else 1)"

text \<open>
  \<^verbatim>\<open>checkPassAndUnlock()\<close>. The result is the state after the handler, or the error
  that left it before any state was set. The update of the progress is the one object
  \<^verbatim>\<open>{ ...p, maxUnlockedDay: Math.max(p.maxUnlockedDay, nextDay), currentDay: nextDay, mode: "learn" }\<close>.
\<close>

definition checkPassAndUnlock :: "regexp_engine \<Rightarrow> dayPlan \<Rightarrow> app_state \<Rightarrow> js_error + app_state" where
  "checkPassAndUnlock re dp s =
     (let vs = vocabScore dp s;
          gs = grammarScore dp s;
          ls = listeningScore dp s
      in case evaluateOutput re dp s of
           Inl e \<Rightarrow> Inl e
         | Inr (outputOk, s1) \<Rightarrow>
             (let passed = (vs \<ge> vocabMinCorrect (passRules dp) \<and>
                            gs \<ge> grammarMinCorrect (passRules dp) \<and>
                            ls \<ge> listeningMinCorrect (passRules dp) \<and>
                            outputOk);
                  s2 = s1\<lparr>result := Some \<lparr>res_vocabScore = vs, res_grammarScore = gs,
                                            res_listeningScore = ls, res_outputOk = outputOk,
                                            res_passed = passed\<rparr>\<rparr>
              in if passed
                 then (let nextDay = safeDay (progress s) + 1;
                           p = progress s2
                       in Inr (s2\<lparr>progress :=
                                 p\<lparr>maxUnlockedDay := max (maxUnlockedDay p) nextDay,
                                   currentDay := nextDay,
                                   mode := ''learn''\<rparr>\<rparr>))
                 else Inr s2))"

subsection \<open>Sequences of calls\<close>

text \<open>
  The effect that runs when \<^verbatim>\<open>safeDay\<close> has changed clears the quiz and writing state
  of the day. Its last lines stop the narration; they act on the state of the narration
  queue only.
\<close>

definition dayChangeEffect :: "app_state \<Rightarrow> app_state" where
  "dayChangeEffect s =
     s\<lparr>vocabCorrect := 0, vocabChosen := Map.empty,
       grammarCorrect := 0, grammarChosen := Map.empty,
       listeningCorrect := 0, listeningChosen := Map.empty,
       outputText := [], outputReport := None, result := None\<rparr>"

text \<open>
  The calls a learner can make on a lesson: navigation, the gate, and what changes the
  state the gate reads (a click on a choice button, typing the text, the writing check).
  The plan of the day is \<^verbatim>\<open>dayPlans.find((d) => d.day === safeDay)\<close>; without one the
  component shows its last page, which has none of these controls. A handler that throws
  leaves the state as it was. A call is not tied to the view that shows its control, and
  a click may carry any choice: the sequences of calls are those the page offers, and
  more.
\<close>

datatype event =
    GoToDay int
  | CheckPassAndUnlock
  | SetMode string
  | SetOutputText string
  | EvaluateOutput
  | ClickVocab nat string
  | ClickGrammar nat string
  | ClickListening nat string

definition handle :: "regexp_engine \<Rightarrow> dayPlan \<Rightarrow> event \<Rightarrow> app_state \<Rightarrow> app_state" where
  "handle re dp ev s =
     (case ev of
        GoToDay d \<Rightarrow> s\<lparr>progress := goToDay d (progress s)\<rparr>
      | CheckPassAndUnlock \<Rightarrow>
          (case checkPassAndUnlock re dp s of Inl e \<Rightarrow> s | Inr s' \<Rightarrow> s')
      | SetMode m \<Rightarrow> s\<lparr>progress := setMode m (progress s)\<rparr>
      | SetOutputText t \<Rightarrow> s\<lparr>outputText := t\<rparr>
      | EvaluateOutput \<Rightarrow>
          (case evaluateOutput re dp s of Inl e \<Rightarrow> s | Inr (ok, s') \<Rightarrow> s')
      | ClickVocab i c \<Rightarrow>
          (case vocab_quiz dp of
             None \<Rightarrow> s
           | Some qs \<Rightarrow> if i < length qs then vocabButton (qs ! i) i c s else s)
      | ClickGrammar i c \<Rightarrow>
          (case grammar dp of
             None \<Rightarrow> s
           | Some g \<Rightarrow>
               (case g_quiz g of
                  None \<Rightarrow> s
                | Some qs \<Rightarrow> if i < length qs then grammarButton (qs ! i) i c s else s))
      | ClickListening i c \<Rightarrow>
          (let flat = flattenListeningQuiz (Some dp)
           in if i < length flat then listeningButton (flat ! i) c s else s))"

definition step :: "regexp_engine \<Rightarrow> dayPlan list \<Rightarrow> event \<Rightarrow> app_state \<Rightarrow> app_state" where
  "step re dayPlans ev s =
     (case find (\<lambda>d. day d = safeDay (progress s)) dayPlans of
        None \<Rightarrow> s
      | Some dp \<Rightarrow>
          (let s' = handle re dp ev s
           in if safeDay (progress s') \<noteq> safeDay (progress s) then dayChangeEffect s'
              else s'))"

definition run :: "regexp_engine \<Rightarrow> dayPlan list \<Rightarrow> event list \<Rightarrow> app_state \<Rightarrow> app_state" where
  "run re dayPlans evs s = fold (step re dayPlans) evs s"

subsection \<open>Loading the progress\<close>

text \<open>
  A value that \<^verbatim>\<open>JSON.parse\<close> can return. An object is the list of its own
  properties, each name once.
\<close>

datatype json =
    JNull
  | JBool bool
  | JNum real
  | JStr string
  | JArr "json list"
  | JObj "(string \<times> json) list"

text \<open>
  Reading a property: on \<^verbatim>\<open>null\<close> it throws, on an object it is the property or
  \<^verbatim>\<open>undefined\<close> (\<open>None\<close>), and no other JSON value has one of the three properties of a
  progress.
\<close>

fun getProp :: "json \<Rightarrow> string \<Rightarrow> js_error + json option" where
  "getProp JNull k = Inl TypeError"
| "getProp (JObj kvs) k = Inr (map_of kvs k)"
| "getProp v k = Inr None"

text \<open>\<^verbatim>\<open>v ?? d\<close>: \<open>d\<close> when \<open>v\<close> is \<^verbatim>\<open>undefined\<close> or \<^verbatim>\<open>null\<close>.\<close>

fun nullish :: "json option \<Rightarrow> json \<Rightarrow> json" where
  "nullish None d = d"
| "nullish (Some JNull) d = d"
| "nullish (Some v) d = v"

definition defaultProgress :: "(json, json) progress" where
  "defaultProgress = \<lparr>currentDay = JNum 1, maxUnlockedDay = JNum 1, mode = JStr ''learn''\<rparr>"

text \<open>
  The body of the \<^verbatim>\<open>try\<close> block of \<^verbatim>\<open>loadProgress\<close>. \<open>getItem\<close> is the outcome of
  \<^verbatim>\<open>localStorage.getItem(STORAGE_KEY)\<close>: an error, \<^verbatim>\<open>null\<close> (\<open>None\<close>) or the stored
  text; \<open>parse\<close> is \<^verbatim>\<open>JSON.parse\<close>. \<^verbatim>\<open>!saved\<close> holds for \<^verbatim>\<open>null\<close> and for the empty
  text.
\<close>

definition loadProgress_try :: "(js_error + string option) \<Rightarrow> (string \<Rightarrow> js_error + json) \<Rightarrow> js_error + (json, json) progress" where
  "loadProgress_try getItem parse =
     (case getItem of
        Inl e \<Rightarrow> Inl e
      | Inr None \<Rightarrow> Inr defaultProgress
      | Inr (Some saved) \<Rightarrow>
          if saved = [] then Inr defaultProgress
          else (case parse saved of
                  Inl e \<Rightarrow> Inl e
                | Inr parsed \<Rightarrow>
                    (case getProp parsed ''currentDay'' of
                       Inl e \<Rightarrow> Inl e
                     | Inr cd \<Rightarrow>
                         (case getProp parsed ''maxUnlockedDay'' of
                            Inl e \<Rightarrow> Inl e
                          | Inr mu \<Rightarrow>
                              (case getProp parsed ''mode'' of
                                 Inl e \<Rightarrow> Inl e
                               | Inr md \<Rightarrow>
                                   Inr \<lparr>currentDay = nullish cd (JNum 1),
                                        maxUnlockedDay = nullish mu (JNum 1),
                                        mode = nullish md (JStr ''learn'')\<rparr>)))))"

text \<open>\<^verbatim>\<open>loadProgress\<close>: the \<^verbatim>\<open>catch\<close> turns every error of the body into the default.\<close>

definition loadProgress :: "(js_error + string option) \<Rightarrow> (string \<Rightarrow> js_error + json) \<Rightarrow> (json, json) progress" where
  "loadProgress getItem parse =
     (case loadProgress_try getItem parse of
        Inl e \<Rightarrow> defaultProgress
      | Inr p \<Rightarrow> p)"

subsection \<open>The narration queue\<close>

text \<open>
  An utterance handed to the speech engine. Its three callbacks are closures over
  \<^verbatim>\<open>myToken\<close>, the stop token of the \<^verbatim>\<open>speakTextsAsQueue\<close> call that built it; the
  voice, rate and pitch it carries take no part in the control of the queue.
\<close>

record utterance =
  u_text :: string
  u_token :: nat

datatype engine_call = HardStop | Speak utterance

text \<open>
  The state of the controller: the two \<^verbatim>\<open>useState\<close> cells, the three refs, and the
  calls made on the engine so far.
\<close>

record speech_state =
  ttsSupported :: bool
  isSpeaking :: bool
  utterQueue :: "string list"
  currentUtter :: "utterance option"
  stopToken :: nat
  engineCalls :: "engine_call list"

text \<open>
  \<^verbatim>\<open>stopSpeaking()\<close>. Every step of \<^verbatim>\<open>iosHardStop\<close> is inside a \<^verbatim>\<open>try\<close> of its own, so
  it does not throw and the fallback of \<^verbatim>\<open>stopSpeaking\<close> is never taken.
\<close>

definition stopSpeaking :: "speech_state \<Rightarrow> speech_state" where
  "stopSpeaking s =
     (let s1 = s\<lparr>stopToken := stopToken s + 1\<rparr>
      in if \<not> ttsSupported s1
         then s1\<lparr>isSpeaking := False, utterQueue := [], currentUtter := None\<rparr>
         else s1\<lparr>engineCalls := engineCalls s1 @ [HardStop],
                 isSpeaking := False, utterQueue := [], currentUtter := None\<rparr>)"

text \<open>
  \<^verbatim>\<open>speakNext\<close>, the closure of one \<^verbatim>\<open>speakTextsAsQueue\<close> call. \<open>speakThrows u\<close> tells
  whether \<^verbatim>\<open>window.speechSynthesis.speak(u)\<close> throws; the \<^verbatim>\<open>catch\<close> then goes on with
  the next text. \<^verbatim>\<open>shift()\<close> takes the first text off the queue, and \<^verbatim>\<open>!next\<close> holds
  for an empty queue and for an empty text.
\<close>

function speakNext :: "(utterance \<Rightarrow> bool) \<Rightarrow> nat \<Rightarrow> speech_state \<Rightarrow> speech_state" where
  "speakNext speakThrows myToken s =
     (if stopToken s \<noteq> myToken then s\<lparr>isSpeaking := False, currentUtter := None\<rparr>
      else (case utterQueue s of
              [] \<Rightarrow> s\<lparr>isSpeaking := False, currentUtter := None\<rparr>
            | next # rest \<Rightarrow>
                if next = []
                then s\<lparr>utterQueue := rest, isSpeaking := False, currentUtter := None\<rparr>
                else (let u = \<lparr>u_text = next, u_token = myToken\<rparr>
                      in if speakThrows u
                         then speakNext speakThrows myToken
                                (s\<lparr>utterQueue := rest, currentUtter := Some u\<rparr>)
                         else s\<lparr>utterQueue := rest, currentUtter := Some u,
                                engineCalls := engineCalls s @ [Speak u]\<rparr>)))"
  by pat_completeness auto
termination
  by (relation "measure (\<lambda>(speakThrows, myToken, s). length (utterQueue s))") auto

text \<open>The callbacks \<^verbatim>\<open>u.onstart\<close>, \<^verbatim>\<open>u.onend\<close> and \<^verbatim>\<open>u.onerror\<close> of an utterance.\<close>

definition onstart :: "utterance \<Rightarrow> speech_state \<Rightarrow> speech_state" where
  "onstart u s = s\<lparr>isSpeaking := True\<rparr>"

definition onend :: "(utterance \<Rightarrow> bool) \<Rightarrow> utterance \<Rightarrow> speech_state \<Rightarrow> speech_state" where
  "onend speakThrows u s =
     (if stopToken s \<noteq> u_token u then s else speakNext speakThrows (u_token u) s)"

definition onerror :: "(utterance \<Rightarrow> bool) \<Rightarrow> utterance \<Rightarrow> speech_state \<Rightarrow> speech_state" where
  "onerror speakThrows u s =
     (if stopToken s \<noteq> u_token u then s else speakNext speakThrows (u_token u) s)"

text \<open>\<^verbatim>\<open>speakTextsAsQueue(texts)\<close>\<close>

definition speakTextsAsQueue :: "(utterance \<Rightarrow> bool) \<Rightarrow> string list \<Rightarrow> speech_state \<Rightarrow> speech_state" where
  "speakTextsAsQueue speakThrows texts s =
     (if \<not> ttsSupported s then s
      else (let s1 = stopSpeaking s;
                queue = filter (\<lambda>t. length (trim t) > 0) texts
            in if length queue = 0 then s1
               else (let s2 = s1\<lparr>utterQueue := queue\<rparr>;
                         myToken = stopToken s2
                     in speakNext speakThrows myToken s2)))"

subsection \<open>Concrete lessons\<close>

text \<open>
  A day on school: three vocabulary terms, a vocabulary quiz of two questions, an empty
  grammar quiz, no listening block, and the rules of the writing task. The text of the
  learner ends in the word \<^verbatim>\<open>Spa\<close> followed by the code unit 223, the sharp s.
\<close>

definition scenarioText :: string where
  "scenarioText = ''Ich gehe heute in die Schule. Das macht Spa'' @ [CHR 0xDF] @ ''.''"

definition scenarioPlan :: dayPlan where
  "scenarioPlan = \<lparr>
     day = 1, topic = ''Schule'',
     vocab_list = Some [\<lparr>de = ''Haus'', en = ''house''\<rparr>,
                        \<lparr>de = ''Schule'', en = ''school''\<rparr>,
                        \<lparr>de = ''Buch'', en = ''book''\<rparr>],
     vocab_quiz = Some [\<lparr>word = ''Schule'', choices = [''school'', ''shoe''],
                          answer = ''school''\<rparr>,
                        \<lparr>word = ''Buch'', choices = [''book'', ''beech''],
                          answer = ''book''\<rparr>],
     grammar = Some \<lparr>g_title = ''Artikel'', g_rules = [], g_examples = [],
                      g_quiz = Some []\<rparr>,
     listening = None,
     outputRules = \<lparr>mustIncludeAny = Some [''schule''], mustIncludeAllPatterns = Some [],
                     minSentences = 2, mustUseVocabAtLeast = 1\<rparr>,
     passRules = \<lparr>minOutputChars = 10, vocabMinCorrect = 1, grammarMinCorrect = 1,
                   listeningMinCorrect = 1\<rparr>\<rparr>"

text \<open>Both questions answered, both right; and the second one wrong.\<close>

definition scenarioPassing :: app_state where
  "scenarioPassing = \<lparr>
     progress = \<lparr>currentDay = 1, maxUnlockedDay = 1, mode = ''quiz''\<rparr>,
     vocabCorrect = 2, vocabChosen = [0 \<mapsto> ''school'', 1 \<mapsto> ''book''],
     grammarCorrect = 0, grammarChosen = Map.empty,
     listeningCorrect = 0, listeningChosen = Map.empty,
     outputText = scenarioText, outputReport = None, result = None\<rparr>"

definition scenarioFailing :: app_state where
  "scenarioFailing =
     scenarioPassing\<lparr>vocabCorrect := 1, vocabChosen := [0 \<mapsto> ''school'', 1 \<mapsto> ''beech'']\<rparr>"

definition scenarioReport :: output_report where
  "scenarioReport = \<lparr>
     charCount = 45, minChars = 10, charsOk = True,
     sentences = 2, r_minSentences = 2, sentencesOk = True,
     r_mustIncludeAny = [''schule''], keywordOk = True,
     r_mustIncludeAllPatterns = [], patternChecks = [], patternsOk = True,
     vocabUsedCount = 1, r_mustUseVocabAtLeast = 1, vocabOk = True\<rparr>"

text \<open>The state after the gate has let the first of the two through.\<close>

definition scenarioPassed :: app_state where
  "scenarioPassed =
     scenarioPassing\<lparr>
       progress := \<lparr>currentDay = 2, maxUnlockedDay = 2, mode = ''learn''\<rparr>,
       outputReport := Some scenarioReport,
       result := Some \<lparr>res_vocabScore = 1, res_grammarScore = 1, res_listeningScore = 1,
                         res_outputOk = True, res_passed = True\<rparr>\<rparr>"

text \<open>An engine that accepts no pattern.\<close>

definition noRegExp :: regexp_engine where
  "noRegExp p t = Inl SyntaxError"

text \<open>
  A state in which one question of each quiz has an answer, the wrong one, and the
  questions they belong to.
\<close>

definition schuleQuestion :: vocab_question where
  "schuleQuestion = \<lparr>word = ''Schule'', choices = [''school'', ''shoe''], answer = ''school''\<rparr>"

definition artikelQuestion :: question where
  "artikelQuestion = \<lparr>q_q = ''___ Schule'', q_choices = [''der'', ''die''], q_a = ''die''\<rparr>"

definition hoerItem :: flat_item where
  "hoerItem = \<lparr>segIndex = 0, qIndex = 0,
                item_q = \<lparr>q_q = ''Wohin geht er?'', q_choices = [''Schule'', ''Kino''],
                           q_a = ''Schule''\<rparr>,
                item_key = ''0-0''\<rparr>"

definition answeredWrong :: app_state where
  "answeredWrong = \<lparr>
     progress = \<lparr>currentDay = 1, maxUnlockedDay = 1, mode = ''quiz''\<rparr>,
     vocabCorrect = 0, vocabChosen = [0 \<mapsto> ''shoe''],
     grammarCorrect = 0, grammarChosen = [0 \<mapsto> ''der''],
     listeningCorrect = 0, listeningChosen = [''0-0'' \<mapsto> ''Kino''],
     outputText = [], outputReport = None, result = None\<rparr>"

text \<open>
  Listening blocks: three segments, the second without a quiz; the older shape with a
  text; and the older shape whose text is empty.
\<close>

definition threeSegments :: "segment list" where
  "threeSegments = [
     \<lparr>seg_id = 1, seg_title = ''Morgen'', seg_text = ''Er geht in die Schule.'',
      seg_repeat = Some 2,
      seg_quiz = Some [\<lparr>q_q = ''Wohin geht er?'', q_choices = [''Schule'', ''Kino''],
                         q_a = ''Schule''\<rparr>,
                       \<lparr>q_q = ''Wann?'', q_choices = [''morgens'', ''abends''],
                         q_a = ''morgens''\<rparr>]\<rparr>,
     \<lparr>seg_id = 2, seg_title = ''Mittag'', seg_text = ''Er isst.'',
      seg_repeat = None, seg_quiz = None\<rparr>,
     \<lparr>seg_id = 3, seg_title = ''Abend'', seg_text = ''Er liest ein Buch.'',
      seg_repeat = Some 1,
      seg_quiz = Some [\<lparr>q_q = ''Was liest er?'', q_choices = [''Buch'', ''Brief''],
                         q_a = ''Buch''\<rparr>]\<rparr>]"

definition segmentsListening :: listening where
  "segmentsListening = \<lparr>segments = Some threeSegments, l_text = None, l_quiz = None\<rparr>"

definition segmentsPlan :: dayPlan where
  "segmentsPlan = scenarioPlan\<lparr>listening := Some segmentsListening\<rparr>"

definition legacyListening :: listening where
  "legacyListening =
     \<lparr>segments = Some [], l_text = Some ''Er geht in die Schule.'', l_quiz = None\<rparr>"

definition legacyPlan :: dayPlan where
  "legacyPlan = scenarioPlan\<lparr>listening := Some legacyListening\<rparr>"

definition emptyTextListening :: listening where
  "emptyTextListening =
     \<lparr>segments = None, l_text = Some [],
      l_quiz = Some [\<lparr>q_q = ''Wohin geht er?'', q_choices = [''Schule'', ''Kino''],
                       q_a = ''Schule''\<rparr>]\<rparr>"

definition emptyTextPlan :: dayPlan where
  "emptyTextPlan = scenarioPlan\<lparr>listening := Some emptyTextListening\<rparr>"

text \<open>
  Stored progress that parses and is not a progress: an object whose day is a string,
  whose bound is negative and whose mode is an array; an object in which only the mode is
  damaged; and an array. \<open>parsesTo v\<close> is a parser that answers \<open>v\<close>.
\<close>

definition corruptObject :: json where
  "corruptObject =
     JObj [(''currentDay'', JStr ''x''), (''maxUnlockedDay'', JNum (- 3)), (''mode'', JArr [])]"

definition halfObject :: json where
  "halfObject = JObj [(''currentDay'', JNum 4), (''maxUnlockedDay'', JNull), (''mode'', JNum 7)]"

definition storedText :: string where
  "storedText = ''{...}''"

definition parsesTo :: "json \<Rightarrow> string \<Rightarrow> js_error + json" where
  "parsesTo v t = Inr v"

text \<open>
  A race on the narration queue: two texts are played on an idle controller, and the
  learner stops before the engine has reported anything about the first utterance.
\<close>

definition idleState :: speech_state where
  "idleState = \<lparr>ttsSupported = True, isSpeaking = False, utterQueue = [],
                 currentUtter = None, stopToken = 0, engineCalls = []\<rparr>"

definition raceUtterance :: utterance where
  "raceUtterance = \<lparr>u_text = ''a'', u_token = 1\<rparr>"

definition racePlaying :: speech_state where
  "racePlaying = speakTextsAsQueue (\<lambda>u. False) [''a'', ''b''] idleState"

definition raceStopped :: speech_state where
  "raceStopped = stopSpeaking racePlaying"

section \<open>Day navigation\<close>

text \<open>
  C8. For every integer \<open>d\<close>, \<open>goToDay d\<close> leaves the progress as it is when \<open>d < 1\<close> or
  \<open>d\<close> exceeds \<open>maxUnlockedDay\<close>; otherwise the new progress has \<open>currentDay = d\<close> and
  \<open>mode = "learn"\<close>, and \<open>maxUnlockedDay\<close> is the old one.
\<close>

theorem goToDay_spec:
  "(d < 1 \<or> d > maxUnlockedDay p \<longrightarrow> goToDay d p = p) \<and>
   (\<not> (d < 1 \<or> d > maxUnlockedDay p) \<longrightarrow>
      currentDay (goToDay d p) = d \<and>
      mode (goToDay d p) = ''learn'' \<and>
      maxUnlockedDay (goToDay d p) = maxUnlockedDay p)"
  by (simp add: goToDay_def)

theorem goToDay_spec_witness:
  "goToDay 0 \<lparr>currentDay = 2, maxUnlockedDay = 3, mode = ''quiz''\<rparr>
     = \<lparr>currentDay = 2, maxUnlockedDay = 3, mode = ''quiz''\<rparr> \<and>
   goToDay 4 \<lparr>currentDay = 2, maxUnlockedDay = 3, mode = ''quiz''\<rparr>
     = \<lparr>currentDay = 2, maxUnlockedDay = 3, mode = ''quiz''\<rparr> \<and>
   currentDay (goToDay 3 \<lparr>currentDay = 2, maxUnlockedDay = 3, mode = ''quiz''\<rparr>) = 3 \<and>
   mode (goToDay 3 \<lparr>currentDay = 2, maxUnlockedDay = 3, mode = ''quiz''\<rparr>) = ''learn'' \<and>
   maxUnlockedDay (goToDay 3 \<lparr>currentDay = 2, maxUnlockedDay = 3, mode = ''quiz''\<rparr>) = 3"
  using goToDay_spec [of 0 "\<lparr>currentDay = 2, maxUnlockedDay = 3, mode = ''quiz''\<rparr>"]
        goToDay_spec [of 4 "\<lparr>currentDay = 2, maxUnlockedDay = 3, mode = ''quiz''\<rparr>"]
        goToDay_spec [of 3 "\<lparr>currentDay = 2, maxUnlockedDay = 3, mode = ''quiz''\<rparr>"]
  by simp

section \<open>The day gate\<close>

lemma evaluateOutput_keeps:
  "evaluateOutput re dp s = Inr (ok, s1) \<Longrightarrow> progress s1 = progress s"
  by (auto simp: evaluateOutput_def Let_def split: sum.splits)

lemma checkPassAndUnlock_unfold:
  "checkPassAndUnlock re dp s =
     (case evaluateOutput re dp s of
        Inl e \<Rightarrow> Inl e
      | Inr (ok, s1) \<Rightarrow>
          Inr (let v = \<lparr>res_vocabScore = vocabScore dp s,
                        res_grammarScore = grammarScore dp s,
                        res_listeningScore = listeningScore dp s,
                        res_outputOk = ok,
                        res_passed =
                          (vocabScore dp s \<ge> vocabMinCorrect (passRules dp) \<and>
                           grammarScore dp s \<ge> grammarMinCorrect (passRules dp) \<and>
                           listeningScore dp s \<ge> listeningMinCorrect (passRules dp) \<and> ok)\<rparr>
               in if res_passed v
                  then s1\<lparr>result := Some v,
                          progress :=
                            \<lparr>currentDay = safeDay (progress s) + 1,
                             maxUnlockedDay =
                               max (maxUnlockedDay (progress s1)) (safeDay (progress s) + 1),
                             mode = ''learn''\<rparr>\<rparr>
                  else s1\<lparr>result := Some v\<rparr>))"
  by (auto simp: checkPassAndUnlock_def Let_def split: sum.splits prod.splits)

text \<open>
  C1. \<open>checkPassAndUnlock\<close> ends without a state only when the writing check has thrown.
  Otherwise it stores a verdict whose scores are the three scores of the state, whose
  \<open>outputOk\<close> is the result of the writing check, and whose \<open>passed\<close> is the conjunction
  of the three comparisons with the thresholds of the day and of \<open>outputOk\<close>. When
  \<open>passed\<close> holds the progress after the call is the one record with
  \<open>currentDay = safeDay + 1\<close>, \<open>maxUnlockedDay = max maxUnlockedDay (safeDay + 1)\<close> and
  \<open>mode = "learn"\<close>; when it does not, the progress is the one before the call.
\<close>

theorem checkPassAndUnlock_spec:
  "(case checkPassAndUnlock re dp s of
      Inl e \<Rightarrow> evaluateOutput re dp s = Inl e
    | Inr s' \<Rightarrow>
        (\<exists>ok s1 v. evaluateOutput re dp s = Inr (ok, s1) \<and> result s' = Some v \<and>
           res_vocabScore v = vocabScore dp s \<and>
           res_grammarScore v = grammarScore dp s \<and>
           res_listeningScore v = listeningScore dp s \<and>
           res_outputOk v = ok \<and>
           res_passed v =
             (vocabScore dp s \<ge> vocabMinCorrect (passRules dp) \<and>
              grammarScore dp s \<ge> grammarMinCorrect (passRules dp) \<and>
              listeningScore dp s \<ge> listeningMinCorrect (passRules dp) \<and> ok) \<and>
           (res_passed v \<longrightarrow>
              progress s' =
                \<lparr>currentDay = safeDay (progress s) + 1,
                 maxUnlockedDay = max (maxUnlockedDay (progress s)) (safeDay (progress s) + 1),
                 mode = ''learn''\<rparr>) \<and>
           (\<not> res_passed v \<longrightarrow> progress s' = progress s)))"
proof (cases "evaluateOutput re dp s")
  case (Inl e)
  then show ?thesis by (simp add: checkPassAndUnlock_unfold)
next
  case (Inr r)
  obtain ok s1 where r: "r = (ok, s1)" by (cases r)
  have "progress s1 = progress s"
    using Inr r by (simp add: evaluateOutput_keeps)
  then show ?thesis
    using Inr r by (auto simp: checkPassAndUnlock_unfold Let_def)
qed

lemma scenarioText_lower:
  "normalize scenarioText =
     ''ich gehe heute in die schule. das macht spa'' @ [CHR 0xDF] @ ''.''"
  by (simp add: normalize_def scenarioText_def toLowerCase_def lowerCaseChar_def
        isUpperCase_def)

lemma scenarioText_sentences: "countSentences scenarioText = 2"
  by (simp add: countSentences_def scenarioText_def isTerminal_def trim_def isWhiteSpace_def)

lemma scenarioText_chars: "length (trim scenarioText) = 45"
  by (simp add: scenarioText_def trim_def isWhiteSpace_def)

lemma schule_lower: "toLowerCase ''Schule'' = ''schule''"
  by (simp add: toLowerCase_def lowerCaseChar_def isUpperCase_def)

lemma scenarioText_schule: "includes_str (normalize scenarioText) ''schule''"
  by (simp add: scenarioText_lower)

lemma scenarioText_keyword: "includesAny scenarioText [''schule'']"
  by (simp add: includesAny_def Let_def scenarioText_schule toLowerCase_def
        lowerCaseChar_def isUpperCase_def)

lemma fold_count:
  "fold (\<lambda>w n. if P w then n + 1 else n) ws k = k + length (filter P ws)"
  by (induction ws arbitrary: k) simp_all

lemma countVocabUsed_filter:
  "countVocabUsed t ws =
     length (filter (\<lambda>w. includes_str (normalize t) (toLowerCase w)) ws)"
  by (simp add: countVocabUsed_def Let_def fold_count)

lemma scenarioPlan_vocab_used:
  "countVocabUsed scenarioText [''Haus'', ''Schule'', ''Buch''] = 1"
  by (simp add: countVocabUsed_filter scenarioText_lower toLowerCase_def lowerCaseChar_def
        isUpperCase_def)

lemma scenarioPlan_evaluate:
  "outputText s = scenarioText \<Longrightarrow>
   evaluateOutput re scenarioPlan s = Inr (True, s\<lparr>outputReport := Some scenarioReport\<rparr>)"
  by (simp add: evaluateOutput_def Let_def scenarioPlan_def orEmpty_def scenarioReport_def
        scenarioText_sentences scenarioText_chars scenarioText_keyword
        scenarioPlan_vocab_used)

lemma getListeningSegments_scenarioPlan: "getListeningSegments (Some scenarioPlan) = []"
  by (simp add: getListeningSegments_def scenarioPlan_def)

lemma scenarioPlan_scores:
  "vocabScore scenarioPlan scenarioPassing = 1"
  "vocabScore scenarioPlan scenarioFailing = 1 / 2"
  "grammarScore scenarioPlan s = 1"
  "listeningScore scenarioPlan s = 1"
  by (simp_all add: vocabScore_def grammarScore_def listeningScore_def scenarioPlan_def
        scenarioPassing_def scenarioFailing_def flattenListeningQuiz_def
        getListeningSegments_def Let_def)

lemma scenarioPlan_passRules:
  "passRules scenarioPlan = \<lparr>minOutputChars = 10, vocabMinCorrect = 1,
     grammarMinCorrect = 1, listeningMinCorrect = 1\<rparr>"
  by (simp add: scenarioPlan_def)

theorem checkPassAndUnlock_spec_witness:
  "(\<exists>s'. checkPassAndUnlock noRegExp scenarioPlan scenarioPassing = Inr s' \<and>
      progress s' = \<lparr>currentDay = 2, maxUnlockedDay = 2, mode = ''learn''\<rparr>) \<and>
   (\<exists>s'. checkPassAndUnlock noRegExp scenarioPlan scenarioFailing = Inr s' \<and>
      progress s' = \<lparr>currentDay = 1, maxUnlockedDay = 1, mode = ''quiz''\<rparr>)"
proof
  have ev: "evaluateOutput noRegExp scenarioPlan scenarioPassing
            = Inr (True, scenarioPassing\<lparr>outputReport := Some scenarioReport\<rparr>)"
    by (rule scenarioPlan_evaluate) (simp add: scenarioPassing_def)
  have p: "progress scenarioPassing = \<lparr>currentDay = 1, maxUnlockedDay = 1, mode = ''quiz''\<rparr>"
    by (simp add: scenarioPassing_def)
  show "\<exists>s'. checkPassAndUnlock noRegExp scenarioPlan scenarioPassing = Inr s' \<and>
      progress s' = \<lparr>currentDay = 2, maxUnlockedDay = 2, mode = ''learn''\<rparr>"
    using checkPassAndUnlock_spec [of noRegExp scenarioPlan scenarioPassing] ev p
    by (auto simp: scenarioPlan_scores safeDay_def scenarioPlan_passRules split: sum.splits)
next
  have ev: "evaluateOutput noRegExp scenarioPlan scenarioFailing
            = Inr (True, scenarioFailing\<lparr>outputReport := Some scenarioReport\<rparr>)"
    by (rule scenarioPlan_evaluate) (simp add: scenarioFailing_def scenarioPassing_def)
  have p: "progress scenarioFailing = \<lparr>currentDay = 1, maxUnlockedDay = 1, mode = ''quiz''\<rparr>"
    by (simp add: scenarioFailing_def scenarioPassing_def)
  show "\<exists>s'. checkPassAndUnlock noRegExp scenarioPlan scenarioFailing = Inr s' \<and>
      progress s' = \<lparr>currentDay = 1, maxUnlockedDay = 1, mode = ''quiz''\<rparr>"
    using checkPassAndUnlock_spec [of noRegExp scenarioPlan scenarioFailing] ev p
    by (auto simp: scenarioPlan_scores safeDay_def scenarioPlan_passRules split: sum.splits)
qed

section \<open>Monotone unlocking\<close>

lemma handle_maxUnlockedDay:
  "maxUnlockedDay (progress s) \<le> maxUnlockedDay (progress (handle re dp ev s))"
proof (cases ev)
  case CheckPassAndUnlock
  show ?thesis
  proof (cases "evaluateOutput re dp s")
    case (Inl e)
    then show ?thesis
      using CheckPassAndUnlock by (simp add: handle_def checkPassAndUnlock_unfold)
  next
    case (Inr r)
    obtain ok s1 where r: "r = (ok, s1)" by (cases r)
    have "progress s1 = progress s"
      using Inr r by (simp add: evaluateOutput_keeps)
    then show ?thesis
      using CheckPassAndUnlock Inr r
      by (simp add: handle_def checkPassAndUnlock_unfold Let_def)
  qed
next
  case EvaluateOutput
  show ?thesis
  proof (cases "evaluateOutput re dp s")
    case (Inl e)
    then show ?thesis using EvaluateOutput by (simp add: handle_def)
  next
    case (Inr r)
    obtain ok s1 where r: "r = (ok, s1)" by (cases r)
    have "progress s1 = progress s"
      using Inr r by (simp add: evaluateOutput_keeps)
    then show ?thesis using EvaluateOutput Inr r by (simp add: handle_def)
  qed
qed (auto simp: handle_def goToDay_def setMode_def vocabButton_def vocabOnClick_def
       grammarButton_def grammarOnClick_def listeningButton_def listeningOnClick_def Let_def
       split: option.splits)

lemma step_maxUnlockedDay:
  "maxUnlockedDay (progress s) \<le> maxUnlockedDay (progress (step re dps ev s))"
  using handle_maxUnlockedDay [of s re _ ev]
  by (auto simp: step_def dayChangeEffect_def Let_def split: option.splits)

lemma run_maxUnlockedDay:
  "maxUnlockedDay (progress s) \<le> maxUnlockedDay (progress (run re dps evs s))"
  unfolding run_def
proof (induction evs arbitrary: s)
  case Nil
  show ?case by simp
next
  case (Cons ev evs)
  have "maxUnlockedDay (progress s) \<le> maxUnlockedDay (progress (step re dps ev s))"
    by (rule step_maxUnlockedDay)
  also have "\<dots> \<le> maxUnlockedDay (progress (fold (step re dps) evs (step re dps ev s)))"
    by (rule Cons.IH)
  finally show ?case by simp
qed

text \<open>
  C2. Along every sequence of calls on a lesson (the navigation and the gate, and the
  calls that change what the gate reads), from every state, \<open>maxUnlockedDay\<close> after a
  longer sequence is at least what it was after any shorter start of it. \<open>goToDay\<close>
  leaves the field as it is, and a call of the gate that passes sets it to
  \<open>max maxUnlockedDay (safeDay + 1)\<close>.
\<close>

theorem maxUnlockedDay_never_decreases:
  "maxUnlockedDay (progress (run re dps evs s))
     \<le> maxUnlockedDay (progress (run re dps (evs @ evs') s)) \<and>
   maxUnlockedDay (goToDay d p) = maxUnlockedDay p \<and>
   (checkPassAndUnlock re dp s = Inr s' \<and> result s' = Some v \<and> res_passed v \<longrightarrow>
      maxUnlockedDay (progress s') =
        max (maxUnlockedDay (progress s)) (safeDay (progress s) + 1))"
proof (intro conjI impI)
  have "run re dps (evs @ evs') s = run re dps evs' (run re dps evs s)"
    by (simp add: run_def)
  then show "maxUnlockedDay (progress (run re dps evs s))
     \<le> maxUnlockedDay (progress (run re dps (evs @ evs') s))"
    by (simp add: run_maxUnlockedDay)
next
  show "maxUnlockedDay (goToDay d p) = maxUnlockedDay p"
    by (simp add: goToDay_def)
next
  assume a: "checkPassAndUnlock re dp s = Inr s' \<and> result s' = Some v \<and> res_passed v"
  show "maxUnlockedDay (progress s') =
        max (maxUnlockedDay (progress s)) (safeDay (progress s) + 1)"
  proof (cases "evaluateOutput re dp s")
    case (Inl e)
    then show ?thesis using a by (simp add: checkPassAndUnlock_unfold)
  next
    case (Inr r)
    obtain ok s1 where r: "r = (ok, s1)" by (cases r)
    have "progress s1 = progress s"
      using Inr r by (simp add: evaluateOutput_keeps)
    then show ?thesis
      using a Inr r by (auto simp: checkPassAndUnlock_unfold Let_def split: if_splits)
  qed
qed

lemma scenarioPassing_checked:
  "checkPassAndUnlock noRegExp scenarioPlan scenarioPassing = Inr scenarioPassed"
proof -
  have "evaluateOutput noRegExp scenarioPlan scenarioPassing
        = Inr (True, scenarioPassing\<lparr>outputReport := Some scenarioReport\<rparr>)"
    by (rule scenarioPlan_evaluate) (simp add: scenarioPassing_def)
  moreover have "progress scenarioPassing
                 = \<lparr>currentDay = 1, maxUnlockedDay = 1, mode = ''quiz''\<rparr>"
    by (simp add: scenarioPassing_def)
  ultimately show ?thesis
    by (simp add: checkPassAndUnlock_unfold scenarioPlan_scores scenarioPlan_passRules
          Let_def scenarioPassed_def safeDay_def)
qed

lemma scenario_run_before:
  "run noRegExp [scenarioPlan] [GoToDay 1] scenarioPassing
     = scenarioPassing\<lparr>progress := \<lparr>currentDay = 1, maxUnlockedDay = 1, mode = ''learn''\<rparr>\<rparr>"
  by (simp add: run_def step_def handle_def goToDay_def safeDay_def scenarioPassing_def
        scenarioPlan_def)

theorem maxUnlockedDay_never_decreases_witness:
  "maxUnlockedDay (progress (run noRegExp [scenarioPlan] [GoToDay 1] scenarioPassing)) = 1 \<and>
   1 \<le> maxUnlockedDay
         (progress (run noRegExp [scenarioPlan] ([GoToDay 1] @ [CheckPassAndUnlock, GoToDay 1])
            scenarioPassing)) \<and>
   maxUnlockedDay (goToDay 1 (progress scenarioPassed)) = 2 \<and>
   checkPassAndUnlock noRegExp scenarioPlan scenarioPassing = Inr scenarioPassed \<and>
   maxUnlockedDay (progress scenarioPassed) = max 1 (1 + 1)"
proof -
  have v: "result scenarioPassed = Some \<lparr>res_vocabScore = 1, res_grammarScore = 1,
             res_listeningScore = 1, res_outputOk = True, res_passed = True\<rparr>"
    by (simp add: scenarioPassed_def)
  have p: "progress scenarioPassing = \<lparr>currentDay = 1, maxUnlockedDay = 1, mode = ''quiz''\<rparr>"
    by (simp add: scenarioPassing_def)
  have q: "maxUnlockedDay (progress scenarioPassed) = 2"
    by (simp add: scenarioPassed_def)
  show ?thesis
    using maxUnlockedDay_never_decreases
            [of noRegExp "[scenarioPlan]" "[GoToDay 1]" scenarioPassing
                "[CheckPassAndUnlock, GoToDay 1]" 1 "progress scenarioPassed"
                scenarioPlan scenarioPassed
                "\<lparr>res_vocabScore = 1, res_grammarScore = 1, res_listeningScore = 1,
                  res_outputOk = True, res_passed = True\<rparr>"]
          scenarioPassing_checked v p q
    by (simp add: scenario_run_before safeDay_def)
qed

section \<open>Quiz scores\<close>

text \<open>
  C6. For each of the three quizzes the score is 1 when the quiz has no question (a list
  that is missing or empty), and the quotient of the counter of right answers by the
  number of questions otherwise. The questions of the listening quiz are the entries of
  the flattened quiz.
\<close>

theorem quiz_scores:
  "(length (orEmpty (vocab_quiz dp)) = 0 \<longrightarrow> vocabScore dp s = 1) \<and>
   (length (orEmpty (vocab_quiz dp)) \<noteq> 0 \<longrightarrow>
      vocabScore dp s = real (vocabCorrect s) / real (length (orEmpty (vocab_quiz dp)))) \<and>
   (length (orEmpty (Option.bind (grammar dp) g_quiz)) = 0 \<longrightarrow> grammarScore dp s = 1) \<and>
   (length (orEmpty (Option.bind (grammar dp) g_quiz)) \<noteq> 0 \<longrightarrow>
      grammarScore dp s =
        real (grammarCorrect s) / real (length (orEmpty (Option.bind (grammar dp) g_quiz)))) \<and>
   (length (flattenListeningQuiz (Some dp)) = 0 \<longrightarrow> listeningScore dp s = 1) \<and>
   (length (flattenListeningQuiz (Some dp)) \<noteq> 0 \<longrightarrow>
      listeningScore dp s =
        real (listeningCorrect s) / real (length (flattenListeningQuiz (Some dp))))"
  by (simp add: vocabScore_def grammarScore_def listeningScore_def orEmpty_def Let_def
        split: option.splits)

theorem quiz_scores_witness:
  "vocabScore scenarioPlan scenarioFailing = 1 / 2 \<and>
   grammarScore scenarioPlan scenarioFailing = 1 \<and>
   listeningScore scenarioPlan scenarioFailing = 1 \<and>
   listeningScore segmentsPlan (scenarioFailing\<lparr>listeningCorrect := 2\<rparr>) = 2 / 3"
proof -
  have a: "length (orEmpty (vocab_quiz scenarioPlan)) = 2"
    "length (orEmpty (Option.bind (grammar scenarioPlan) g_quiz)) = 0"
    "length (flattenListeningQuiz (Some scenarioPlan)) = 0"
    by (simp_all add: scenarioPlan_def orEmpty_def flattenListeningQuiz_def
          getListeningSegments_def)
  have b: "length (flattenListeningQuiz (Some segmentsPlan)) = 3"
    by (simp add: segmentsPlan_def segmentsListening_def threeSegments_def
          flattenListeningQuiz_def getListeningSegments_def orEmpty_def)
  have c: "vocabCorrect scenarioFailing = 1"
    by (simp add: scenarioFailing_def)
  show ?thesis
    using quiz_scores [of scenarioPlan scenarioFailing]
          quiz_scores [of segmentsPlan "scenarioFailing\<lparr>listeningCorrect := 2\<rparr>"]
    by (simp add: a b c)
qed

section \<open>The writing check on the lesson about school\<close>

text \<open>
  C7. Let the rules ask for at least 10 characters, 2 sentences, one of the keywords
  \<^verbatim>\<open>["schule"]\<close>, no pattern, and one vocabulary term, and let the vocabulary hold
  \<^verbatim>\<open>Schule\<close> and, before and after it, terms that do not occur in the text. Then
  the writing check of the text \<^verbatim>\<open>Ich gehe heute in die Schule. Das macht Spass.\<close>
  (written with the sharp s) returns true and stores the report with 45 characters,
  2 sentences, the keyword found, and 1 vocabulary term used.
\<close>

theorem evaluateOutput_scenario:
  assumes rules: "outputRules dp = \<lparr>mustIncludeAny = Some [''schule''],
                     mustIncludeAllPatterns = Some [], minSentences = 2,
                     mustUseVocabAtLeast = 1\<rparr>"
    and chars: "minOutputChars (passRules dp) = 10"
    and vocab: "map de (orEmpty (vocab_list dp)) = before @ ''Schule'' # after"
    and unused: "\<forall>w \<in> set before \<union> set after.
                   \<not> includes_str (normalize scenarioText) (toLowerCase w)"
    and written: "outputText s = scenarioText"
  shows "evaluateOutput re dp s = Inr (True, s\<lparr>outputReport := Some scenarioReport\<rparr>) \<and>
         sentences scenarioReport = 2 \<and> keywordOk scenarioReport \<and>
         vocabUsedCount scenarioReport = 1"
proof -
  have "filter (\<lambda>w. includes_str (normalize scenarioText) (toLowerCase w))
          (before @ ''Schule'' # after) = [''Schule'']"
    using unused by (simp add: schule_lower scenarioText_schule)
  then have used: "countVocabUsed scenarioText (map de (orEmpty (vocab_list dp))) = 1"
    by (simp add: countVocabUsed_filter vocab)
  have "evaluateOutput re dp s = Inr (True, s\<lparr>outputReport := Some scenarioReport\<rparr>)"
    by (simp add: evaluateOutput_def Let_def rules chars written orEmpty_def [of "Some _"]
          used scenarioText_keyword scenarioText_sentences scenarioText_chars
          scenarioReport_def)
  then show ?thesis by (simp add: scenarioReport_def)
qed

theorem evaluateOutput_scenario_witness:
  "evaluateOutput noRegExp scenarioPlan scenarioPassing
     = Inr (True, scenarioPassing\<lparr>outputReport := Some scenarioReport\<rparr>) \<and>
   sentences scenarioReport = 2 \<and> keywordOk scenarioReport \<and>
   vocabUsedCount scenarioReport = 1"
proof -
  have "\<forall>w \<in> set [''Haus''] \<union> set [''Buch''].
          \<not> includes_str (normalize scenarioText) (toLowerCase w)"
    by (simp add: scenarioText_lower toLowerCase_def lowerCaseChar_def isUpperCase_def)
  moreover have "map de (orEmpty (vocab_list scenarioPlan)) = [''Haus''] @ ''Schule'' # [''Buch'']"
    by (simp add: scenarioPlan_def orEmpty_def)
  moreover have "outputRules scenarioPlan = \<lparr>mustIncludeAny = Some [''schule''],
                     mustIncludeAllPatterns = Some [], minSentences = 2,
                     mustUseVocabAtLeast = 1\<rparr>"
    and "minOutputChars (passRules scenarioPlan) = 10"
    and "outputText scenarioPassing = scenarioText"
    by (simp_all add: scenarioPlan_def scenarioPassing_def)
  ultimately show ?thesis
    using evaluateOutput_scenario [of scenarioPlan "[''Haus'']" "[''Buch'']" scenarioPassing noRegExp]
    by blast
qed

section \<open>Recording an answer\<close>

text \<open>
  The handler of a choice button stores and counts whatever it is given: called on a
  question that has an answer, here the first vocabulary question with the wrong choice
  stored, it replaces the stored choice and raises the counter.
\<close>

theorem onClick_overwrites_answer:
  "vocabChosen answeredWrong 0 = Some ''shoe'' \<and>
   vocabChosen (vocabOnClick schuleQuestion 0 ''school'' answeredWrong) 0 = Some ''school'' \<and>
   vocabCorrect answeredWrong = 0 \<and>
   vocabCorrect (vocabOnClick schuleQuestion 0 ''school'' answeredWrong) = 1"
  by (simp add: answeredWrong_def schuleQuestion_def vocabOnClick_def Let_def)

lemma evaluateOutput_report:
  "evaluateOutput re dp s = Inr (ok, s1) \<Longrightarrow> \<exists>rep. s1 = s\<lparr>outputReport := Some rep\<rparr>"
  by (auto simp: evaluateOutput_def Let_def split: sum.splits)

lemma checkPassAndUnlock_answers:
  assumes "checkPassAndUnlock re dp s = Inr s'"
  shows "vocabChosen s' = vocabChosen s \<and> vocabCorrect s' = vocabCorrect s \<and>
         grammarChosen s' = grammarChosen s \<and> grammarCorrect s' = grammarCorrect s \<and>
         listeningChosen s' = listeningChosen s \<and> listeningCorrect s' = listeningCorrect s"
proof (cases "evaluateOutput re dp s")
  case (Inl e)
  then show ?thesis using assms by (simp add: checkPassAndUnlock_unfold)
next
  case (Inr r)
  obtain ok s1 where r: "r = (ok, s1)" by (cases r)
  obtain rep where "s1 = s\<lparr>outputReport := Some rep\<rparr>"
    using Inr r evaluateOutput_report by blast
  then show ?thesis
    using assms Inr r by (auto simp: checkPassAndUnlock_unfold Let_def split: if_splits)
qed

lemma handle_keeps_answers:
  "(vocabChosen s i = Some c0 \<longrightarrow> vocabChosen (handle re dp ev s) i = Some c0) \<and>
   (grammarChosen s j = Some c1 \<longrightarrow> grammarChosen (handle re dp ev s) j = Some c1) \<and>
   (listeningChosen s k = Some c2 \<longrightarrow> listeningChosen (handle re dp ev s) k = Some c2)"
proof (cases ev)
  case CheckPassAndUnlock
  then show ?thesis
    using checkPassAndUnlock_answers [of re dp s]
    by (auto simp: handle_def split: sum.splits)
next
  case EvaluateOutput
  then show ?thesis
    using evaluateOutput_report [of re dp s]
    by (auto simp: handle_def split: sum.splits)
qed (auto simp: handle_def vocabButton_def vocabOnClick_def vocabLocked_def
       grammarButton_def grammarOnClick_def grammarLocked_def
       listeningButton_def listeningOnClick_def listeningLocked_def Let_def
       split: option.splits)

text \<open>
  C3, as the code has it. In each of the three quizzes the choice buttons of a question
  that has a recorded answer are disabled, so a second click, with whatever choice,
  leaves the whole state as it is: neither the stored choice nor the counter of right
  answers changes. No call on the lesson replaces a recorded answer. The rejection is the
  disabled button; the handler behind it has no check of its own.
\<close>

theorem answered_question_is_locked:
  "(vocabChosen s i \<noteq> None \<longrightarrow> vocabButton vq i c s = s) \<and>
   (grammarChosen s j \<noteq> None \<longrightarrow> grammarButton gq j c s = s) \<and>
   (listeningChosen s (item_key item) \<noteq> None \<longrightarrow> listeningButton item c s = s) \<and>
   (vocabChosen s i = Some c0 \<longrightarrow> vocabChosen (handle re dp ev s) i = Some c0) \<and>
   (grammarChosen s j = Some c1 \<longrightarrow> grammarChosen (handle re dp ev s) j = Some c1) \<and>
   (listeningChosen s k = Some c2 \<longrightarrow> listeningChosen (handle re dp ev s) k = Some c2)"
  using handle_keeps_answers [of s i c0 re dp ev j c1 k c2]
  by (simp add: vocabButton_def grammarButton_def listeningButton_def
        vocabLocked_def grammarLocked_def listeningLocked_def)

theorem answered_question_is_locked_witness:
  "vocabChosen answeredWrong 0 = Some ''shoe'' \<and>
   vocabButton schuleQuestion 0 ''school'' answeredWrong = answeredWrong \<and>
   grammarChosen answeredWrong 0 = Some ''der'' \<and>
   grammarButton artikelQuestion 0 ''die'' answeredWrong = answeredWrong \<and>
   listeningChosen answeredWrong (item_key hoerItem) = Some ''Kino'' \<and>
   listeningButton hoerItem ''Schule'' answeredWrong = answeredWrong \<and>
   vocabChosen (handle noRegExp scenarioPlan (ClickVocab 0 ''school'') answeredWrong) 0
     = Some ''shoe'' \<and>
   grammarChosen (handle noRegExp scenarioPlan (ClickVocab 1 ''book'') answeredWrong) 0
     = Some ''der'' \<and>
   listeningChosen (handle noRegExp scenarioPlan CheckPassAndUnlock answeredWrong) ''0-0''
     = Some ''Kino''"
  using answered_question_is_locked
          [of answeredWrong 0 schuleQuestion "''school''" 0 artikelQuestion hoerItem
              "''shoe''" noRegExp scenarioPlan "ClickVocab 0 ''school''" "''der''"
              "''0-0''" "''Kino''"]
        answered_question_is_locked
          [of answeredWrong 0 schuleQuestion "''die''" 0 artikelQuestion hoerItem
              "''shoe''" noRegExp scenarioPlan "ClickVocab 1 ''book''" "''der''"
              "''0-0''" "''Kino''"]
        answered_question_is_locked
          [of answeredWrong 0 schuleQuestion "''Schule''" 0 artikelQuestion hoerItem
              "''shoe''" noRegExp scenarioPlan CheckPassAndUnlock "''der''"
              "''0-0''" "''Kino''"]
  by (simp add: answeredWrong_def hoerItem_def)

section \<open>Stale callbacks of the narration queue\<close>

text \<open>
  The end and error callbacks of an utterance compare the token they captured with the
  live one, and do nothing when the two differ.
\<close>

lemma onend_stale: "stopToken s \<noteq> u_token u \<Longrightarrow> onend speakThrows u s = s"
  by (simp add: onend_def)

lemma onerror_stale: "stopToken s \<noteq> u_token u \<Longrightarrow> onerror speakThrows u s = s"
  by (simp add: onerror_def)

lemma racePlaying_state:
  "racePlaying = \<lparr>ttsSupported = True, isSpeaking = False, utterQueue = [''b''],
                   currentUtter = Some raceUtterance, stopToken = 1,
                   engineCalls = [HardStop, Speak raceUtterance]\<rparr>"
  by (simp add: racePlaying_def speakTextsAsQueue_def stopSpeaking_def idleState_def
        raceUtterance_def trim_def isWhiteSpace_def Let_def)

lemma raceStopped_state:
  "raceStopped = \<lparr>ttsSupported = True, isSpeaking = False, utterQueue = [],
                   currentUtter = None, stopToken = 2,
                   engineCalls = [HardStop, Speak raceUtterance, HardStop]\<rparr>"
  by (simp add: raceStopped_def racePlaying_state stopSpeaking_def Let_def)

text \<open>
  C4 at the race. The utterance of the first text was handed to the engine with token 1;
  after the stop the live token is 2 and the controller is idle. The start callback of
  that utterance, arriving now, sets the speaking flag: it is not a no-op, while the end
  and the error callback of the same utterance are.
\<close>

theorem stale_onstart_sets_speaking:
  "Speak raceUtterance \<in> set (engineCalls raceStopped) \<and>
   u_token raceUtterance \<noteq> stopToken raceStopped \<and>
   \<not> isSpeaking raceStopped \<and>
   isSpeaking (onstart raceUtterance raceStopped) \<and>
   onstart raceUtterance raceStopped \<noteq> raceStopped \<and>
   onend (\<lambda>u. False) raceUtterance raceStopped = raceStopped \<and>
   onerror (\<lambda>u. False) raceUtterance raceStopped = raceStopped"
  by (simp add: raceStopped_state onstart_def onend_def onerror_def raceUtterance_def)

section \<open>Loading the progress\<close>

text \<open>
  Stored text that parses to an object whose three fields are no day, no bound and no
  mode: \<open>loadProgress\<close> returns the three values as they are stored, which is not the
  default progress.
\<close>

theorem loadProgress_corrupt_object:
  "loadProgress (Inr (Some storedText)) (parsesTo corruptObject)
     = \<lparr>currentDay = JStr ''x'', maxUnlockedDay = JNum (- 3), mode = JArr []\<rparr> \<and>
   loadProgress (Inr (Some storedText)) (parsesTo corruptObject)
     \<noteq> \<lparr>currentDay = JNum 1, maxUnlockedDay = JNum 1, mode = JStr ''learn''\<rparr>"
  by (simp add: loadProgress_def loadProgress_try_def storedText_def parsesTo_def
        corruptObject_def)

text \<open>
  C5, as the code has it. \<open>loadProgress\<close> is a function of what the store and the parser
  answer and has no error among its results: whenever the body of its \<^verbatim>\<open>try\<close> throws,
  the result is the default progress. It is the default, too, when the store has no
  value or the empty text, when the stored text does not parse, and when it parses to
  \<^verbatim>\<open>null\<close>, a boolean, a number, a string or an array. When the stored text parses to
  an object, each of the three fields is the default of that field when the object has
  no such property or has \<^verbatim>\<open>null\<close> there, and is the stored value otherwise, whatever
  its type or range.
\<close>

theorem loadProgress_spec:
  "(getItem = Inr None \<or> getItem = Inr (Some []) \<or>
    (\<exists>saved e. getItem = Inr (Some saved) \<and> parse saved = Inl e) \<or>
    (\<exists>saved. getItem = Inr (Some saved) \<and> parse saved = Inr JNull) \<or>
    (\<exists>saved b. getItem = Inr (Some saved) \<and> parse saved = Inr (JBool b)) \<or>
    (\<exists>saved x. getItem = Inr (Some saved) \<and> parse saved = Inr (JNum x)) \<or>
    (\<exists>saved t. getItem = Inr (Some saved) \<and> parse saved = Inr (JStr t)) \<or>
    (\<exists>saved vs. getItem = Inr (Some saved) \<and> parse saved = Inr (JArr vs)) \<or>
    (\<exists>e. loadProgress_try getItem parse = Inl e)
    \<longrightarrow> loadProgress getItem parse
          = \<lparr>currentDay = JNum 1, maxUnlockedDay = JNum 1, mode = JStr ''learn''\<rparr>) \<and>
   (getItem = Inr (Some saved) \<and> saved \<noteq> [] \<and> parse saved = Inr (JObj kvs)
    \<longrightarrow> loadProgress getItem parse
          = \<lparr>currentDay =
               (case map_of kvs ''currentDay'' of
                  None \<Rightarrow> JNum 1 | Some JNull \<Rightarrow> JNum 1 | Some v \<Rightarrow> v),
             maxUnlockedDay =
               (case map_of kvs ''maxUnlockedDay'' of
                  None \<Rightarrow> JNum 1 | Some JNull \<Rightarrow> JNum 1 | Some v \<Rightarrow> v),
             mode =
               (case map_of kvs ''mode'' of
                  None \<Rightarrow> JStr ''learn'' | Some JNull \<Rightarrow> JStr ''learn'' | Some v \<Rightarrow> v)\<rparr>)"
proof (intro conjI impI)
  assume "getItem = Inr None \<or> getItem = Inr (Some []) \<or>
    (\<exists>saved e. getItem = Inr (Some saved) \<and> parse saved = Inl e) \<or>
    (\<exists>saved. getItem = Inr (Some saved) \<and> parse saved = Inr JNull) \<or>
    (\<exists>saved b. getItem = Inr (Some saved) \<and> parse saved = Inr (JBool b)) \<or>
    (\<exists>saved x. getItem = Inr (Some saved) \<and> parse saved = Inr (JNum x)) \<or>
    (\<exists>saved t. getItem = Inr (Some saved) \<and> parse saved = Inr (JStr t)) \<or>
    (\<exists>saved vs. getItem = Inr (Some saved) \<and> parse saved = Inr (JArr vs)) \<or>
    (\<exists>e. loadProgress_try getItem parse = Inl e)"
  then show "loadProgress getItem parse
          = \<lparr>currentDay = JNum 1, maxUnlockedDay = JNum 1, mode = JStr ''learn''\<rparr>"
    by (auto simp: loadProgress_def loadProgress_try_def defaultProgress_def
             split: sum.splits if_splits)
next
  have n: "nullish x d = (case x of None \<Rightarrow> d | Some JNull \<Rightarrow> d | Some v \<Rightarrow> v)" for x d
    by (cases "(x, d)" rule: nullish.cases) simp_all
  assume "getItem = Inr (Some saved) \<and> saved \<noteq> [] \<and> parse saved = Inr (JObj kvs)"
  then show "loadProgress getItem parse
          = \<lparr>currentDay =
               (case map_of kvs ''currentDay'' of
                  None \<Rightarrow> JNum 1 | Some JNull \<Rightarrow> JNum 1 | Some v \<Rightarrow> v),
             maxUnlockedDay =
               (case map_of kvs ''maxUnlockedDay'' of
                  None \<Rightarrow> JNum 1 | Some JNull \<Rightarrow> JNum 1 | Some v \<Rightarrow> v),
             mode =
               (case map_of kvs ''mode'' of
                  None \<Rightarrow> JStr ''learn'' | Some JNull \<Rightarrow> JStr ''learn'' | Some v \<Rightarrow> v)\<rparr>"
    by (simp add: loadProgress_def loadProgress_try_def n)
qed

theorem loadProgress_spec_witness:
  "loadProgress (Inr None) (parsesTo (JObj []))
     = \<lparr>currentDay = JNum 1, maxUnlockedDay = JNum 1, mode = JStr ''learn''\<rparr> \<and>
   loadProgress (Inr (Some ''{oops'')) (\<lambda>t. Inl SyntaxError)
     = \<lparr>currentDay = JNum 1, maxUnlockedDay = JNum 1, mode = JStr ''learn''\<rparr> \<and>
   loadProgress (Inr (Some ''null'')) (parsesTo JNull)
     = \<lparr>currentDay = JNum 1, maxUnlockedDay = JNum 1, mode = JStr ''learn''\<rparr> \<and>
   loadProgress (Inr (Some ''[1,2]'')) (parsesTo (JArr [JNum 1, JNum 2]))
     = \<lparr>currentDay = JNum 1, maxUnlockedDay = JNum 1, mode = JStr ''learn''\<rparr> \<and>
   loadProgress (Inl StorageError) (parsesTo (JObj []))
     = \<lparr>currentDay = JNum 1, maxUnlockedDay = JNum 1, mode = JStr ''learn''\<rparr> \<and>
   loadProgress (Inr (Some storedText)) (parsesTo corruptObject)
     = \<lparr>currentDay = JStr ''x'', maxUnlockedDay = JNum (- 3), mode = JArr []\<rparr> \<and>
   loadProgress (Inr (Some storedText)) (parsesTo halfObject)
     = \<lparr>currentDay = JNum 4, maxUnlockedDay = JNum 1, mode = JNum 7\<rparr>"
  using loadProgress_spec [of "Inr None" "parsesTo (JObj [])"]
        loadProgress_spec [of "Inr (Some ''{oops'')" "\<lambda>t. Inl SyntaxError"]
        loadProgress_spec [of "Inr (Some ''null'')" "parsesTo JNull"]
        loadProgress_spec [of "Inr (Some ''[1,2]'')" "parsesTo (JArr [JNum 1, JNum 2])"]
        loadProgress_spec [of "Inl StorageError" "parsesTo (JObj [])"]
        loadProgress_spec [of "Inr (Some storedText)" "parsesTo corruptObject" storedText
           "[(''currentDay'', JStr ''x''), (''maxUnlockedDay'', JNum (- 3)), (''mode'', JArr [])]"]
        loadProgress_spec [of "Inr (Some storedText)" "parsesTo halfObject" storedText
           "[(''currentDay'', JNum 4), (''maxUnlockedDay'', JNull), (''mode'', JNum 7)]"]
  by (simp add: parsesTo_def corruptObject_def halfObject_def storedText_def
        loadProgress_try_def)

section \<open>Listening segments\<close>

text \<open>
  A listening block without segments whose \<^verbatim>\<open>text\<close> is present and empty: the result
  is the empty list, not the single segment of the older shape.
\<close>

theorem getListeningSegments_empty_text:
  "listening emptyTextPlan = Some emptyTextListening \<and>
   segments emptyTextListening = None \<and>
   l_text emptyTextListening = Some [] \<and>
   getListeningSegments (Some emptyTextPlan) = [] \<and>
   getListeningSegments (Some emptyTextPlan) \<noteq>
     [\<lparr>seg_id = 1, seg_title = ''Listening'', seg_text = [], seg_repeat = Some 1,
       seg_quiz = Some (orEmpty (l_quiz emptyTextListening))\<rparr>]"
  by (simp add: emptyTextPlan_def emptyTextListening_def getListeningSegments_def)

text \<open>
  C10, as the code has it. \<open>getListeningSegments\<close> is total. Without a plan or without a
  listening block the result is empty. A non-empty \<^verbatim>\<open>segments\<close> array is returned as
  it is. When the array is missing or empty and the \<^verbatim>\<open>text\<close> of the older shape is a
  non-empty string, the result is the one segment with id 1, title \<^verbatim>\<open>Listening\<close>, that
  text, repeat 1 and the older quiz, or the empty quiz when that is missing. When the
  array is missing or empty and the text is missing or empty, the result is empty.
\<close>

theorem getListeningSegments_spec:
  "getListeningSegments None = [] \<and>
   (listening dp = None \<longrightarrow> getListeningSegments (Some dp) = []) \<and>
   (listening dp = Some L \<and> segments L = Some segs \<and> segs \<noteq> [] \<longrightarrow>
      getListeningSegments (Some dp) = segs) \<and>
   (listening dp = Some L \<and> (segments L = None \<or> segments L = Some []) \<and>
    l_text L = Some t \<and> t \<noteq> [] \<longrightarrow>
      getListeningSegments (Some dp) =
        [\<lparr>seg_id = 1, seg_title = ''Listening'', seg_text = t, seg_repeat = Some 1,
          seg_quiz = Some (orEmpty (l_quiz L))\<rparr>]) \<and>
   (listening dp = Some L \<and> (segments L = None \<or> segments L = Some []) \<and>
    (l_text L = None \<or> l_text L = Some []) \<longrightarrow>
      getListeningSegments (Some dp) = [])"
  by (auto simp: getListeningSegments_def split: option.splits list.splits)

theorem getListeningSegments_spec_witness:
  "getListeningSegments (Some scenarioPlan) = [] \<and>
   getListeningSegments (Some segmentsPlan) = threeSegments \<and>
   getListeningSegments (Some legacyPlan) =
     [\<lparr>seg_id = 1, seg_title = ''Listening'', seg_text = ''Er geht in die Schule.'',
       seg_repeat = Some 1, seg_quiz = Some []\<rparr>] \<and>
   getListeningSegments (Some emptyTextPlan) = []"
  using getListeningSegments_spec [of scenarioPlan]
        getListeningSegments_spec [of segmentsPlan segmentsListening threeSegments]
        getListeningSegments_spec [of legacyPlan legacyListening _ "''Er geht in die Schule.''"]
        getListeningSegments_spec [of emptyTextPlan emptyTextListening]
  by (simp add: scenarioPlan_def segmentsPlan_def segmentsListening_def threeSegments_def
        legacyPlan_def legacyListening_def emptyTextPlan_def emptyTextListening_def
        orEmpty_def)

section \<open>The flattened listening quiz\<close>

declare toString_nat.simps [simp del]

lemma toString_nat_small: "n < 10 \<Longrightarrow> toString_nat n = [digitChar n]"
  by (subst toString_nat.simps) simp

lemma toString_nat_large:
  "\<not> n < 10 \<Longrightarrow> toString_nat n = toString_nat (n div 10) @ [digitChar (n mod 10)]"
  by (subst toString_nat.simps) simp

lemma digitChar_inj:
  assumes "d < 10" "e < 10" "digitChar d = digitChar e"
  shows "d = e"
proof -
  have "distinct ''0123456789''" by simp
  moreover have "d < length ''0123456789''" "e < length ''0123456789''"
    using assms by simp_all
  ultimately show "d = e"
    using assms(3) unfolding digitChar_def by (simp only: nth_eq_iff_index_eq)
qed

lemma digitChar_not_dash:
  assumes "d < 10"
  shows "digitChar d \<noteq> CHR ''-''"
proof -
  have "d < length ''0123456789''" using assms by simp
  then have "''0123456789'' ! d \<in> set ''0123456789''" by (rule nth_mem)
  then show ?thesis unfolding digitChar_def by auto
qed

lemma toString_nat_not_empty: "toString_nat n \<noteq> []"
  by (cases "n < 10") (simp_all add: toString_nat_small toString_nat_large)

lemma toString_nat_no_dash: "CHR ''-'' \<notin> set (toString_nat n)"
proof (induction n rule: toString_nat.induct)
  case (1 n)
  show ?case
  proof (cases "n < 10")
    case True
    then show ?thesis
      using digitChar_not_dash [of n] by (auto simp: toString_nat_small)
  next
    case False
    have "n mod 10 < 10" by simp
    then have "digitChar (n mod 10) \<noteq> CHR ''-''" by (rule digitChar_not_dash)
    then show ?thesis using False "1.IH" by (auto simp: toString_nat_large)
  qed
qed

text \<open>Two indices with the same digits are the same index.\<close>

lemma toString_nat_inj: "toString_nat n = toString_nat m \<Longrightarrow> n = m"
proof (induction n arbitrary: m rule: toString_nat.induct)
  case (1 n)
  show ?case
  proof (cases "n < 10")
    case n_small: True
    show ?thesis
    proof (cases "m < 10")
      case True
      then show ?thesis
        using n_small "1.prems" digitChar_inj [of n m] by (simp add: toString_nat_small)
    next
      case False
      then show ?thesis
        using n_small "1.prems" toString_nat_not_empty [of "m div 10"]
        by (simp add: toString_nat_small toString_nat_large)
    qed
  next
    case n_large: False
    show ?thesis
    proof (cases "m < 10")
      case True
      then show ?thesis
        using n_large "1.prems" toString_nat_not_empty [of "n div 10"]
        by (simp add: toString_nat_small toString_nat_large)
    next
      case False
      have "toString_nat (n div 10) @ [digitChar (n mod 10)]
            = toString_nat (m div 10) @ [digitChar (m mod 10)]"
        using n_large False "1.prems" by (simp add: toString_nat_large)
      then have "toString_nat (n div 10) = toString_nat (m div 10)"
        and last_digit: "digitChar (n mod 10) = digitChar (m mod 10)" by simp_all
      then have "n div 10 = m div 10" using "1.IH" [OF n_large] by blast
      moreover have "n mod 10 = m mod 10"
        using last_digit digitChar_inj [of "n mod 10" "m mod 10"] by simp
      ultimately show ?thesis by (metis div_mult_mod_eq)
    qed
  qed
qed

lemma split_at_mark:
  assumes "xs @ a # ys = xs' @ a # ys'" "a \<notin> set xs" "a \<notin> set xs'"
  shows "xs = xs' \<and> ys = ys'"
proof -
  have "takeWhile (\<lambda>c. c \<noteq> a) (xs @ a # ys) = xs"
    using assms(2) by (subst takeWhile_append2) auto
  moreover have "takeWhile (\<lambda>c. c \<noteq> a) (xs' @ a # ys') = xs'"
    using assms(3) by (subst takeWhile_append2) auto
  ultimately have "xs = xs'" using assms(1) by simp
  then show ?thesis using assms(1) by simp
qed

lemma listeningKey_inj:
  assumes "listeningKey a b = listeningKey c d"
  shows "a = c \<and> b = d"
proof -
  have "toString_nat a @ CHR ''-'' # toString_nat b
        = toString_nat c @ CHR ''-'' # toString_nat d"
    using assms by (simp add: listeningKey_def)
  then have "toString_nat a = toString_nat c \<and> toString_nat b = toString_nat d"
    by (rule split_at_mark) (rule toString_nat_no_dash)+
  then show ?thesis by (auto dest: toString_nat_inj)
qed

text \<open>The two loops, as the list they build.\<close>

lemma fold_push: "fold (\<lambda>x out. out @ [f x]) xs out = out @ map f xs"
  by (induction xs arbitrary: out) simp_all

lemma fold_push_all: "fold (\<lambda>x out. out @ g x) xs out = out @ concat (map g xs)"
  by (induction xs arbitrary: out) simp_all

lemma map_enumerate_nth:
  "map (\<lambda>(i, x). f i x) (enumerate 0 xs) = map (\<lambda>i. f i (xs ! i)) [0..<length xs]"
  by (rule nth_equalityI) (simp_all add: nth_enumerate_eq)

lemma flattenListeningQuiz_concat:
  "flattenListeningQuiz dpo =
     concat (map (\<lambda>si. map (\<lambda>qi. flatItem si qi
                                   (orEmpty (seg_quiz (getListeningSegments dpo ! si)) ! qi))
                         [0..<length (orEmpty (seg_quiz (getListeningSegments dpo ! si)))])
                 [0..<length (getListeningSegments dpo)])"
proof -
  have inner:
    "fold (\<lambda>(qi, qn) out'. out' @ [flatItem si qi qn]) (enumerate 0 (orEmpty (seg_quiz seg))) out
     = out @ map (\<lambda>qi. flatItem si qi (orEmpty (seg_quiz seg) ! qi))
               [0..<length (orEmpty (seg_quiz seg))]"
    for si seg out
  proof -
    have "(\<lambda>(qi, qn) out'. out' @ [flatItem si qi qn])
          = (\<lambda>x out'. out' @ [(\<lambda>(qi, qn). flatItem si qi qn) x])"
      by (simp add: fun_eq_iff)
    then show ?thesis
      by (simp only: fold_push map_enumerate_nth)
  qed
  have outer:
    "(\<lambda>(si, seg) out.
        fold (\<lambda>(qi, qn) out'. out' @ [flatItem si qi qn])
          (enumerate 0 (orEmpty (seg_quiz seg))) out)
     = (\<lambda>x out. out @ (\<lambda>(si, seg). map (\<lambda>qi. flatItem si qi (orEmpty (seg_quiz seg) ! qi))
                                        [0..<length (orEmpty (seg_quiz seg))]) x)"
    by (simp add: fun_eq_iff inner)
  show ?thesis
    unfolding flattenListeningQuiz_def Let_def
    by (simp only: outer fold_push_all map_enumerate_nth append_Nil)
qed

lemma distinct_index_pairs:
  "distinct xs \<Longrightarrow> distinct (concat (map (\<lambda>si. map (Pair si) [0..<n si]) xs))"
proof (induction xs)
  case Nil
  show ?case by simp
next
  case (Cons x xs)
  have "distinct (map (Pair x) [0..<n x])"
    by (simp add: distinct_map inj_on_def)
  moreover have "distinct (concat (map (\<lambda>si. map (Pair si) [0..<n si]) xs))"
    using Cons by simp
  moreover have "set (map (Pair x) [0..<n x])
                 \<inter> set (concat (map (\<lambda>si. map (Pair si) [0..<n si]) xs)) = {}"
    using Cons.prems by auto
  ultimately show ?case by simp
qed

lemma flattenListeningQuiz_indices:
  "map (\<lambda>it. (segIndex it, qIndex it)) (flattenListeningQuiz dpo) =
     concat (map (\<lambda>si. map (Pair si)
                          [0..<length (orEmpty (seg_quiz (getListeningSegments dpo ! si)))])
                 [0..<length (getListeningSegments dpo)])"
  by (simp add: flattenListeningQuiz_concat map_concat comp_def flatItem_def)

lemma flattenListeningQuiz_keys:
  "map item_key (flattenListeningQuiz dpo) =
     map (\<lambda>(si, qi). listeningKey si qi)
       (map (\<lambda>it. (segIndex it, qIndex it)) (flattenListeningQuiz dpo))"
  by (simp add: flattenListeningQuiz_concat map_concat comp_def flatItem_def)

lemma flattenListeningQuiz_distinct_keys:
  "distinct (map item_key (flattenListeningQuiz dpo))"
proof -
  define ps where "ps = map (\<lambda>it. (segIndex it, qIndex it)) (flattenListeningQuiz dpo)"
  have "distinct ps"
    unfolding ps_def flattenListeningQuiz_indices by (rule distinct_index_pairs) simp
  moreover have "inj_on (\<lambda>(si, qi). listeningKey si qi) (set ps)"
    by (auto simp: inj_on_def dest: listeningKey_inj)
  ultimately have "distinct (map (\<lambda>(si, qi). listeningKey si qi) ps)"
    by (simp only: distinct_map simp_thms)
  then show ?thesis
    by (simp only: flattenListeningQuiz_keys ps_def)
qed

lemma flattenListeningQuiz_items:
  assumes "it \<in> set (flattenListeningQuiz dpo)"
  shows "segIndex it < length (getListeningSegments dpo) \<and>
         qIndex it < length (orEmpty (seg_quiz (getListeningSegments dpo ! segIndex it))) \<and>
         item_q it = orEmpty (seg_quiz (getListeningSegments dpo ! segIndex it)) ! qIndex it \<and>
         item_key it = listeningKey (segIndex it) (qIndex it)"
  using assms by (auto simp: flattenListeningQuiz_concat flatItem_def)

text \<open>
  C9. For every day plan, the pairs (segment index, question index) of the flattened
  quiz are, in this order, the pairs of the first segment by rising question index, then
  those of the second segment, and so on; every entry holds the question found at its
  pair of indices and the key made of that pair; two pairs of indices with the same key
  are the same pair, and no key occurs twice in the flattened quiz.
\<close>

theorem flattenListeningQuiz_spec:
  "map (\<lambda>it. (segIndex it, qIndex it)) (flattenListeningQuiz dpo) =
     concat (map (\<lambda>si. map (Pair si)
                          [0..<length (orEmpty (seg_quiz (getListeningSegments dpo ! si)))])
                 [0..<length (getListeningSegments dpo)]) \<and>
   (\<forall>it \<in> set (flattenListeningQuiz dpo).
      segIndex it < length (getListeningSegments dpo) \<and>
      qIndex it < length (orEmpty (seg_quiz (getListeningSegments dpo ! segIndex it))) \<and>
      item_q it = orEmpty (seg_quiz (getListeningSegments dpo ! segIndex it)) ! qIndex it \<and>
      item_key it = listeningKey (segIndex it) (qIndex it)) \<and>
   (listeningKey a b = listeningKey c d \<longrightarrow> a = c \<and> b = d) \<and>
   distinct (map item_key (flattenListeningQuiz dpo))"
  using flattenListeningQuiz_indices [of dpo] flattenListeningQuiz_items [of _ dpo]
        listeningKey_inj [of a b c d] flattenListeningQuiz_distinct_keys [of dpo]
  by blast

lemma listeningKey_small:
  "listeningKey 0 0 = ''0-0''" "listeningKey 0 (Suc 0) = ''0-1''" "listeningKey 2 0 = ''2-0''"
  by (simp_all add: listeningKey_def toString_nat_small digitChar_def)

lemma segmentsPlan_flat:
  "flattenListeningQuiz (Some segmentsPlan) =
     [flatItem 0 0 \<lparr>q_q = ''Wohin geht er?'', q_choices = [''Schule'', ''Kino''],
                     q_a = ''Schule''\<rparr>,
      flatItem 0 1 \<lparr>q_q = ''Wann?'', q_choices = [''morgens'', ''abends''],
                     q_a = ''morgens''\<rparr>,
      flatItem 2 0 \<lparr>q_q = ''Was liest er?'', q_choices = [''Buch'', ''Brief''],
                     q_a = ''Buch''\<rparr>]"
  by (simp add: flattenListeningQuiz_def getListeningSegments_def segmentsPlan_def
        segmentsListening_def threeSegments_def orEmpty_def numeral_2_eq_2)

theorem flattenListeningQuiz_spec_witness:
  "map (\<lambda>it. (segIndex it, qIndex it)) (flattenListeningQuiz (Some segmentsPlan))
     = [(0, 0), (0, 1), (2, 0)] \<and>
   map item_key (flattenListeningQuiz (Some segmentsPlan)) = [''0-0'', ''0-1'', ''2-0''] \<and>
   map item_q (flattenListeningQuiz (Some segmentsPlan))
     = orEmpty (seg_quiz (threeSegments ! 0)) @ orEmpty (seg_quiz (threeSegments ! 2)) \<and>
   listeningKey 0 1 = listeningKey 0 1 \<and>
   distinct (map item_key (flattenListeningQuiz (Some segmentsPlan)))"
  using flattenListeningQuiz_spec [of "Some segmentsPlan" 0 1 0 1]
  by (simp add: segmentsPlan_flat flatItem_def listeningKey_small threeSegments_def
        orEmpty_def)

end
